theory Spec2Isabelle
  imports Complex_Main "HOL-Library.Word" "HOL-Library.AList"
begin

unbundle bit_operations_syntax

section \<open>Go values used by pdf/model/font.go\<close>

text \<open>
  A Go \<^verbatim>\<open>string\<close> is a sequence of bytes; it is modelled as \<^typ>\<open>string\<close>, whose
  characters are bytes. A \<^verbatim>\<open>[]byte\<close> is a list of 8-bit words, a \<^verbatim>\<open>uint16\<close>
  character code a 16-bit word, a \<^verbatim>\<open>cmap.CharCode\<close> (uint32) a 32-bit word. A
  \<^verbatim>\<open>rune\<close> (int32) is an \<^typ>\<open>int\<close>: no arithmetic is done on runes here.
  Lengths and counters (Go \<^verbatim>\<open>int\<close>) are natural numbers: they only count up from 0
  and are bounded by the length of the input.
\<close>

type_synonym byte = "8 word"
type_synonym uint16 = "16 word"
type_synonym CharCode = "32 word"
type_synonym rune = int

subsection \<open>The conversion \<^verbatim>\<open>[]rune(s)\<close>\<close>

text \<open>
  \<^verbatim>\<open>len([]rune(out))\<close> at the end of \<^verbatim>\<open>CharcodeBytesToUnicode\<close> decodes the bytes of
  \<^verbatim>\<open>out\<close> as UTF-8. The Go language defines the conversion: every well-formed encoding
  gives its code point, and every byte that starts no well-formed encoding gives the
  rune U+FFFD and is skipped alone. \<open>acceptRange\<close> gives, for a lead byte of a multi-byte
  encoding, the length of the encoding and the range of its second byte (the other
  bytes lie in 0x80..0xBF); \<open>DecodeRuneInString\<close> is one step of the decoding (the rune
  and the number of bytes it takes), \<open>runes\<close> the whole conversion.
\<close>

definition RuneError :: rune where
  "RuneError = 0xFFFD"

definition byteval :: "char \<Rightarrow> nat" where
  "byteval c = of_char c"

definition acceptRange :: "nat \<Rightarrow> (nat \<times> nat \<times> nat) option" where
  "acceptRange b0 =
     (if b0 < 0xC2 then None
      else if b0 < 0xE0 then Some (2, 0x80, 0xBF)
      else if b0 = 0xE0 then Some (3, 0xA0, 0xBF)
      else if b0 < 0xED then Some (3, 0x80, 0xBF)
      else if b0 = 0xED then Some (3, 0x80, 0x9F)
      else if b0 < 0xF0 then Some (3, 0x80, 0xBF)
      else if b0 = 0xF0 then Some (4, 0x90, 0xBF)
      else if b0 < 0xF4 then Some (4, 0x80, 0xBF)
      else if b0 = 0xF4 then Some (4, 0x80, 0x8F)
      else None)"

fun DecodeRuneInString :: "string \<Rightarrow> rune \<times> nat" where
  "DecodeRuneInString [] = (RuneError, 0)"
| "DecodeRuneInString (c0 # s) =
     (let s0 = byteval c0 in
      if s0 < 0x80 then (int s0, 1)
      else case acceptRange s0 of
        None \<Rightarrow> (RuneError, 1)
      | Some (sz, lo, hi) \<Rightarrow>
          if Suc (length s) < sz then (RuneError, 1)
          else let s1 = byteval (s ! 0) in
          if s1 < lo \<or> hi < s1 then (RuneError, 1)
          else if sz \<le> 2 then (int ((s0 mod 32) * 64 + s1 mod 64), 2)
          else let s2 = byteval (s ! 1) in
          if s2 < 0x80 \<or> 0xBF < s2 then (RuneError, 1)
          else if sz \<le> 3 then
            (int ((s0 mod 16) * 4096 + (s1 mod 64) * 64 + s2 mod 64), 3)
          else let s3 = byteval (s ! 2) in
          if s3 < 0x80 \<or> 0xBF < s3 then (RuneError, 1)
          else (int ((s0 mod 8) * 262144 + (s1 mod 64) * 4096 + (s2 mod 64) * 64
                  + s3 mod 64), 4))"

lemma DecodeRuneInString_size_pos: "0 < snd (DecodeRuneInString (c # s))"
  by (simp add: Let_def split: option.split prod.split)

function runes :: "string \<Rightarrow> rune list" where
  "runes [] = []"
| "runes (c # s) =
     (case DecodeRuneInString (c # s) of (r, n) \<Rightarrow> r # runes (drop n (c # s)))"
  by pat_completeness auto
termination
proof (relation "measure length", goal_cases)
  case 1
  show ?case by simp
next
  case (2 c s r n)
  have "0 < snd (DecodeRuneInString (c # s))"
    by (rule DecodeRuneInString_size_pos)
  with 2 have "0 < n" by (metis snd_conv)
  then show ?case by simp
qed

text \<open>
  A string is valid UTF-8 (Go's \<^verbatim>\<open>utf8.ValidString\<close>) when no step of its decoding is
  the replacement of a single byte.
\<close>

function ValidString :: "string \<Rightarrow> bool" where
  "ValidString [] = True"
| "ValidString (c # s) =
     (case DecodeRuneInString (c # s) of
        (r, n) \<Rightarrow> \<not> (r = RuneError \<and> n = 1) \<and> ValidString (drop n (c # s)))"
  by pat_completeness auto
termination
proof (relation "measure length", goal_cases)
  case 1
  show ?case by simp
next
  case (2 c s r n)
  have "0 < snd (DecodeRuneInString (c # s))"
    by (rule DecodeRuneInString_size_pos)
  with 2 have "0 < n" by (metis snd_conv)
  then show ?case by simp
qed

section \<open>The document object model (package core)\<close>

text \<open>
  Modelled from the spec: package \<^verbatim>\<open>core\<close> lies outside \<^verbatim>\<open>pdf/model/font.go\<close>. The spec
  (section 6) gives it as a tree of typed values (name, number, string, array,
  dictionary, stream, indirect reference, null) with get-by-key returning an optional
  value and with resolution of indirection to the direct target. \<open>nil\<close> is Go's nil
  interface value of type \<^verbatim>\<open>core.PdfObject\<close>: the optional value that is absent. A
  dictionary keeps its keys in insertion order, so it is an association list.
\<close>

datatype PdfObject =
    nil
  | PdfObjectNull
  | PdfObjectName string
  | PdfObjectInteger int
  | PdfObjectFloat real
  | PdfObjectString string
  | PdfObjectArray "PdfObject list"
  | PdfObjectDictionary "(string \<times> PdfObject) list"
  | PdfObjectStream int "(string \<times> PdfObject) list" "byte list"
  | PdfIndirectObject int PdfObject
  | PdfObjectReference int

type_synonym PdfObjectDictionary = "(string \<times> PdfObject) list"

text \<open>Modelled from the spec: get-by-key; a key that is not set gives \<open>nil\<close>.\<close>

definition Get :: "PdfObjectDictionary \<Rightarrow> string \<Rightarrow> PdfObject" where
  "Get d key = (case map_of d key of None \<Rightarrow> nil | Some v \<Rightarrow> v)"

text \<open>
  Modelled from the spec: \<^verbatim>\<open>Set\<close> overwrites the value of a key that is set and appends
  a key that is not; \<^verbatim>\<open>core.MakeDict\<close> gives the empty dictionary.
\<close>

definition Set_dict :: "PdfObjectDictionary \<Rightarrow> string \<Rightarrow> PdfObject \<Rightarrow> PdfObjectDictionary" where
  "Set_dict d key val = AList.update key val d"

definition MakeDict :: PdfObjectDictionary where
  "MakeDict = []"

text \<open>
  Modelled from the spec: \<^verbatim>\<open>core.TraceToDirectObject\<close> follows the indirection to the
  direct target; \<^verbatim>\<open>core.GetName\<close> gives the string of a name object and fails
  (\<open>None\<close>) on every other value, \<open>nil\<close> included.
\<close>

fun TraceToDirectObject :: "PdfObject \<Rightarrow> PdfObject" where
  "TraceToDirectObject (PdfIndirectObject n obj) = TraceToDirectObject obj"
| "TraceToDirectObject obj = obj"

fun GetName :: "PdfObject \<Rightarrow> string option" where
  "GetName (PdfObjectName s) = Some s"
| "GetName obj = None"

section \<open>Errors\<close>

text \<open>
  The error values the source returns: the package variables \<^verbatim>\<open>ErrFontNotSupported\<close>,
  \<^verbatim>\<open>ErrRequiredAttributeMissing\<close> and \<^verbatim>\<open>core.ErrTypeError\<close>, an error made by
  \<^verbatim>\<open>errors.New\<close> with its message, the error made by \<^verbatim>\<open>fmt.Errorf\<close> for an unsupported
  font type (with the subtype and the base font of the font it prints), and
  \<open>ErrCollaborator\<close> for whatever error a function outside this file returns. A run-time
  panic is a value of its own type.
\<close>

datatype error =
    ErrFontNotSupported
  | ErrRequiredAttributeMissing
  | ErrTypeError
  | ErrorsNew string
  | ErrUnsupportedFontType string string
  | ErrCollaborator string

datatype panic = IndexOutOfRange

section \<open>The data of a font\<close>

text \<open>
  Modelled from the spec: the explicit mapping table (\<^verbatim>\<open>cmap.CMap\<close>) and the built-in
  encoding (\<^verbatim>\<open>textencoding.TextEncoder\<close>) are black boxes offering lookup by code;
  each is given by the lookup it answers. The embedded font programs are opaque.
\<close>

datatype CMap = CMap (Name: string) (CharcodeToUnicode2: "CharCode \<Rightarrow> string \<times> bool")

datatype TextEncoder = TextEncoder (CharcodeToRune: "uint16 \<Rightarrow> rune \<times> bool")

typedecl fontFile
typedecl TtfType

record PdfFontDescriptor =
  FontName :: PdfObject
  FontFamily :: PdfObject
  FontStretch :: PdfObject
  FontWeight :: PdfObject
  Flags :: PdfObject
  FontBBox :: PdfObject
  ItalicAngle :: PdfObject
  Ascent :: PdfObject
  Descent :: PdfObject
  Leading :: PdfObject
  CapHeight :: PdfObject
  XHeight :: PdfObject
  StemV :: PdfObject
  StemH :: PdfObject
  AvgWidth :: PdfObject
  MaxWidth :: PdfObject
  MissingWidth :: PdfObject
  FontFile :: PdfObject
  FontFile2 :: PdfObject
  FontFile3 :: PdfObject
  CharSet :: PdfObject
  fontFile :: "fontFile option"
  fontFile2 :: "TtfType option"
  Style :: PdfObject
  Lang :: PdfObject
  FD :: PdfObject
  CIDSet :: PdfObject
  container :: PdfObject

record fontSkeleton =
  basefont :: string
  subtype :: string
  toUnicode :: PdfObject
  toUnicodeCmap :: "CMap option"
  fontDescriptor :: "PdfFontDescriptor option"
  dict :: "PdfObjectDictionary option"
  objectNumber :: int

text \<open>
  Modelled from the spec: the font variants (section 3). The types of the variants are
  declared outside this file; each is given by what this file reads of it: the built-in
  encoder its \<^verbatim>\<open>Encoder()\<close> returns (\<open>None\<close> for a nil encoder) and, for a composite
  font, its one descendant font. \<open>FontNil\<close> is a nil \<^verbatim>\<open>font.context\<close>, \<open>FontOther\<close> any other
  implementation of \<^verbatim>\<open>fonts.Font\<close> (the default branch of \<^verbatim>\<open>actualFont\<close>).
\<close>

datatype std14Kind =
    FontCourier | FontCourierBold | FontCourierBoldOblique | FontCourierOblique
  | FontHelvetica | FontHelveticaBold | FontHelveticaBoldOblique | FontHelveticaOblique
  | FontTimesRoman | FontTimesBold | FontTimesBoldItalic | FontTimesItalic
  | FontSymbol | FontZapfDingbats

datatype std14Font = Std14Font (std14_kind: std14Kind) (std14_encoder: "TextEncoder option")

datatype pdfFontSimple = PdfFontSimple (simple_encoder: "TextEncoder option")

datatype pdfCIDFontType0 = PdfCIDFontType0 (cid0_encoder: "TextEncoder option")

datatype pdfCIDFontType2 = PdfCIDFontType2 (cid2_encoder: "TextEncoder option")

datatype PdfFont = PdfFont (skeleton: fontSkeleton) (fontContext: Font)
and Font =
    FontNil
  | FontSimple pdfFontSimple
  | FontType0 pdfFontType0
  | FontCIDType0 pdfCIDFontType0
  | FontCIDType2 pdfCIDFontType2
  | FontStd14 std14Font
  | FontOther
and pdfFontType0 =
    PdfFontType0 (DescendantFont: PdfFont) (type0_encoder: "TextEncoder option")

text \<open>
  The functions, tables and constants of other files that this file calls. They are
  parameters of the model: a theorem holds for every choice of them.
\<close>

record collaborators =
  Standard14Fonts :: "string \<rightharpoonup> std14Font"
  std14ToPdfObject :: "std14Font \<Rightarrow> PdfObject"
  DecodeStream :: "PdfObject \<Rightarrow> error + byte list"
  LoadCmapFromData :: "byte list \<Rightarrow> bool \<Rightarrow> error + CMap"
  newFontFileFromPdfObject :: "PdfObject \<Rightarrow> error + fontFile"
  NewFontFile2FromPdfObject :: "PdfObject \<Rightarrow> error + TtfType"
  newPdfFontType0FromPdfObject :: "fontSkeleton \<Rightarrow> error + pdfFontType0"
  newSimpleFontFromPdfObject :: "fontSkeleton \<Rightarrow> bool \<Rightarrow> error + pdfFontSimple"
  addEncoding :: "pdfFontSimple \<Rightarrow> error + pdfFontSimple"
  newPdfCIDFontType0FromPdfObject :: "fontSkeleton \<Rightarrow> error + pdfCIDFontType0"
  newPdfCIDFontType2FromPdfObject :: "fontSkeleton \<Rightarrow> error + pdfCIDFontType2"
  MissingCodeString :: string
  RuneToString :: "rune \<Rightarrow> string"

section \<open>The font facade\<close>

text \<open>\<^verbatim>\<open>fontSkeleton.isCIDFont\<close> (lines 379-390).\<close>

definition isCIDFont :: "fontSkeleton \<Rightarrow> bool" where
  "isCIDFont skel =
     (if subtype skel = ''Type0'' \<or> subtype skel = ''CIDFontType0''
         \<or> subtype skel = ''CIDFontType2''
      then True else False)"

text \<open>\<^verbatim>\<open>PdfFont.actualFont\<close> (lines 270-315): \<open>None\<close> is the nil it returns.\<close>

fun actualFont :: "PdfFont \<Rightarrow> Font option" where
  "actualFont (PdfFont skel FontNil) = None"
| "actualFont (PdfFont skel FontOther) = None"
| "actualFont (PdfFont skel t) = Some t"

text \<open>The \<^verbatim>\<open>Encoder()\<close> method of the variant that \<^verbatim>\<open>actualFont\<close> returned.\<close>

fun variantEncoder :: "Font \<Rightarrow> TextEncoder option" where
  "variantEncoder (FontSimple t) = simple_encoder t"
| "variantEncoder (FontType0 t) = type0_encoder t"
| "variantEncoder (FontCIDType0 t) = cid0_encoder t"
| "variantEncoder (FontCIDType2 t) = cid2_encoder t"
| "variantEncoder (FontStd14 t) = std14_encoder t"
| "variantEncoder FontNil = None"
| "variantEncoder FontOther = None"

text \<open>\<^verbatim>\<open>PdfFont.Encoder\<close> (lines 238-246).\<close>

definition Encoder :: "PdfFont \<Rightarrow> TextEncoder option" where
  "Encoder font = (case actualFont font of None \<Rightarrow> None | Some t \<Rightarrow> variantEncoder t)"

text \<open>\<^verbatim>\<open>PdfFont.BaseFont\<close> (lines 43-45).\<close>

definition BaseFont :: "PdfFont \<Rightarrow> string" where
  "BaseFont font = basefont (skeleton font)"

text \<open>
  \<^verbatim>\<open>PdfFont.Subtype\<close> (lines 48-54); \<^verbatim>\<open>fmt.Sprintf("%s:%s", a, b)\<close> is \<open>a\<close>, a colon
  and \<open>b\<close>.
\<close>

fun Subtype :: "PdfFont \<Rightarrow> string" where
  "Subtype (PdfFont skel (FontType0 (PdfFontType0 descendant enc))) =
     subtype skel @ '':'' @ Subtype descendant"
| "Subtype (PdfFont skel ctx) = subtype skel"

text \<open>\<^verbatim>\<open>PdfFont.ToUnicode\<close> (lines 57-62).\<close>

definition ToUnicode :: "PdfFont \<Rightarrow> string" where
  "ToUnicode font =
     (case toUnicodeCmap (skeleton font) of None \<Rightarrow> '''' | Some cm \<Rightarrow> Name cm)"

section \<open>\<^verbatim>\<open>PdfFont.CharcodeBytesToUnicode\<close> (lines 168-225)\<close>

text \<open>
  The loop of lines 180-183 over the two-byte codes of a CID font. \<^verbatim>\<open>data[i+1]\<close> is
  read at an index the loop condition does not check: reading it out of range is the
  run-time panic of Go.
\<close>

function cidCharcodes :: "byte list \<Rightarrow> nat \<Rightarrow> uint16 list \<Rightarrow> panic + uint16 list" where
  "cidCharcodes data i charcodes =
     (if i < length data then
        (if Suc i < length data then
           cidCharcodes data (i + 2)
             (charcodes @ [push_bit 8 (ucast (data ! i)) OR ucast (data ! Suc i)])
         else Inl IndexOutOfRange)
      else Inr charcodes)"
  by pat_completeness auto
termination
  by (relation "measure (\<lambda>(data, i, charcodes). length data - i)") auto

declare cidCharcodes.simps [simp del]

text \<open>The loop of lines 185-187 over the one-byte codes of any other font.\<close>

fun byteCharcodes :: "byte list \<Rightarrow> uint16 list \<Rightarrow> uint16 list" where
  "byteCharcodes [] charcodes = charcodes"
| "byteCharcodes (b # data) charcodes = byteCharcodes data (charcodes @ [ucast b])"

text \<open>Lines 171-188: the character codes of the input.\<close>

definition splitCharcodes :: "PdfFont \<Rightarrow> byte list \<Rightarrow> panic + uint16 list" where
  "splitCharcodes font data =
     (if isCIDFont (skeleton font) then
        (let data1 = (if length data = 1 then [0, data ! 0] else data);
             data2 = (if length data1 mod 2 \<noteq> 0 then data1 @ [0] else data1)
         in cidCharcodes data2 0 [])
      else Inr (byteCharcodes data []))"

text \<open>
  The body of the loop of lines 192-214 for one code: the state is the list
  \<^verbatim>\<open>charstrings\<close> and the counter \<^verbatim>\<open>numMisses\<close>.
\<close>

definition decodeCharcode ::
  "collaborators \<Rightarrow> PdfFont \<Rightarrow> uint16 \<Rightarrow> string list \<times> nat \<Rightarrow> string list \<times> nat" where
  "decodeCharcode E font code st =
     (case st of (charstrings, numMisses) \<Rightarrow>
        (case (case toUnicodeCmap (skeleton font) of
                 None \<Rightarrow> None
               | Some cm \<Rightarrow>
                   (case CharcodeToUnicode2 cm (ucast code) of
                      (r, ok) \<Rightarrow> if ok then Some r else None)) of
           Some r \<Rightarrow> (charstrings @ [r], numMisses)
         | None \<Rightarrow>
             (case Encoder font of
                None \<Rightarrow> (charstrings, numMisses)
              | Some encoder \<Rightarrow>
                  (case CharcodeToRune encoder code of
                     (r, ok) \<Rightarrow>
                       if ok then (charstrings @ [RuneToString E r], numMisses)
                       else (charstrings @ [MissingCodeString E], numMisses + 1)))))"

fun decodeCharcodes ::
  "collaborators \<Rightarrow> PdfFont \<Rightarrow> uint16 list \<Rightarrow> string list \<times> nat \<Rightarrow> string list \<times> nat" where
  "decodeCharcodes E font [] st = st"
| "decodeCharcodes E font (code # charcodes) st =
     decodeCharcodes E font charcodes (decodeCharcode E font code st)"

text \<open>
  Lines 223-224: \<^verbatim>\<open>strings.Join(charstrings, "")\<close> is the concatenation, and the count
  is the number of runes of the joined string.
\<close>

definition joinResult :: "string list \<times> nat \<Rightarrow> string \<times> nat \<times> nat" where
  "joinResult st =
     (case st of (charstrings, numMisses) \<Rightarrow>
        (let out = concat charstrings in (out, length (runes out), numMisses)))"

definition CharcodeBytesToUnicode ::
  "collaborators \<Rightarrow> PdfFont \<Rightarrow> byte list \<Rightarrow> panic + (string \<times> nat \<times> nat)" where
  "CharcodeBytesToUnicode E font data =
     (case splitCharcodes font data of
        Inl p \<Rightarrow> Inl p
      | Inr charcodes \<Rightarrow> Inr (joinResult (decodeCharcodes E font charcodes ([], 0))))"

section \<open>Reference definitions for the character codes\<close>

text \<open>
  The splitting of the input as the specification words it, to compare with
  \<open>splitCharcodes\<close>: a two-byte big-endian code is 256 times its first byte plus its
  second byte; the input of a CID font is padded to an even length, a single byte by a
  leading zero byte and any other odd length by one trailing zero byte; for any other
  font each byte is a code of its own.
\<close>

fun bigEndianCodes :: "byte list \<Rightarrow> uint16 list" where
  "bigEndianCodes (hi # lo # rest) =
     word_of_nat (256 * unat hi + unat lo) # bigEndianCodes rest"
| "bigEndianCodes [b] = []"
| "bigEndianCodes [] = []"

definition cidPadded :: "byte list \<Rightarrow> byte list" where
  "cidPadded data =
     (if length data = 1 then [0, hd data]
      else if odd (length data) then data @ [0]
      else data)"

definition singleByteCodes :: "byte list \<Rightarrow> uint16 list" where
  "singleByteCodes data = map (\<lambda>b. word_of_nat (unat b)) data"

definition specCharcodes :: "PdfFont \<Rightarrow> byte list \<Rightarrow> uint16 list" where
  "specCharcodes font data =
     (if isCIDFont (skeleton font) then bigEndianCodes (cidPadded data)
      else singleByteCodes data)"

text \<open>
  The text that the explicit mapping table alone gives for a list of codes: the strings
  it maps the codes to, joined in the order of the codes.
\<close>

definition tableText :: "CMap \<Rightarrow> uint16 list \<Rightarrow> string" where
  "tableText cm codes = concat (map (\<lambda>code. fst (CharcodeToUnicode2 cm (ucast code))) codes)"

section \<open>Font descriptors\<close>

text \<open>
  \<^verbatim>\<open>newPdfFontDescriptorFromPdfObject\<close> (lines 548-622). It returns a descriptor and an
  error: both when an embedded font program fails to load, no descriptor when the
  object is not a dictionary. One level of indirection is followed (lines 551-554);
  the indirect object is kept as the container.
\<close>

definition newPdfFontDescriptorFromPdfObject ::
  "collaborators \<Rightarrow> PdfObject \<Rightarrow> PdfFontDescriptor option \<times> error option" where
  "newPdfFontDescriptorFromPdfObject E obj0 =
     (case (case obj0 of PdfIndirectObject n inner \<Rightarrow> (obj0, inner) | _ \<Rightarrow> (nil, obj0)) of
        (ind, obj) \<Rightarrow>
     (case obj of
        PdfObjectDictionary d \<Rightarrow>
          (let descriptor =
             \<lparr> FontName = Get d ''FontName'',
               FontFamily = Get d ''FontFamily'',
               FontStretch = Get d ''FontStretch'',
               FontWeight = Get d ''FontWeight'',
               Flags = Get d ''Flags'',
               FontBBox = Get d ''FontBBox'',
               ItalicAngle = Get d ''ItalicAngle'',
               Ascent = Get d ''Ascent'',
               Descent = Get d ''Descent'',
               Leading = Get d ''Leading'',
               CapHeight = Get d ''CapHeight'',
               XHeight = Get d ''XHeight'',
               StemV = Get d ''StemV'',
               StemH = Get d ''StemH'',
               AvgWidth = Get d ''AvgWidth'',
               MaxWidth = Get d ''MaxWidth'',
               MissingWidth = Get d ''MissingWidth'',
               FontFile = Get d ''FontFile'',
               FontFile2 = Get d ''FontFile2'',
               FontFile3 = Get d ''FontFile3'',
               CharSet = Get d ''CharSet'',
               fontFile = None,
               fontFile2 = None,
               Style = Get d ''Style'',
               Lang = Get d ''Lang'',
               FD = Get d ''FD'',
               CIDSet = Get d ''CIDSet'',
               container = ind \<rparr>
           in
           (case (if FontFile descriptor \<noteq> nil
                  then (case newFontFileFromPdfObject E (FontFile descriptor) of
                          Inl err \<Rightarrow> Inl err
                        | Inr ff \<Rightarrow> Inr (descriptor\<lparr>fontFile := Some ff\<rparr>))
                  else Inr descriptor) of
              Inl err \<Rightarrow> (Some descriptor, Some err)
            | Inr descriptor1 \<Rightarrow>
                (if FontFile2 descriptor1 \<noteq> nil
                 then (case NewFontFile2FromPdfObject E (FontFile2 descriptor1) of
                         Inl err \<Rightarrow> (Some descriptor1, Some err)
                       | Inr ff2 \<Rightarrow> (Some (descriptor1\<lparr>fontFile2 := Some ff2\<rparr>), None))
                 else (Some descriptor1, None))))
      | _ \<Rightarrow> (None, Some ErrTypeError)))"

text \<open>
  One statement of \<^verbatim>\<open>PdfFontDescriptor.ToPdfObject\<close>:
  \<^verbatim>\<open>if guard != nil { d.Set(key, val) }\<close>.
\<close>

definition setWhen ::
  "PdfObject \<Rightarrow> string \<Rightarrow> PdfObject \<Rightarrow> PdfObjectDictionary \<Rightarrow> PdfObjectDictionary" where
  "setWhen guard key val d = (if guard \<noteq> nil then Set_dict d key val else d)"

text \<open>
  The dictionary that \<^verbatim>\<open>PdfFontDescriptor.ToPdfObject\<close> builds (lines 626-732), statement
  by statement. Line 718 tests \<^verbatim>\<open>Style\<close> and line 719 sets \<^verbatim>\<open>FontName\<close>.
\<close>

definition descriptorDict :: "PdfFontDescriptor \<Rightarrow> PdfObjectDictionary" where
  "descriptorDict this =
     (setWhen (CIDSet this) ''CIDSet'' (CIDSet this)
     (setWhen (FD this) ''FD'' (FD this)
     (setWhen (Lang this) ''Lang'' (Lang this)
     (setWhen (Style this) ''FontName'' (FontName this)
     (setWhen (CharSet this) ''CharSet'' (CharSet this)
     (setWhen (FontFile3 this) ''FontFile3'' (FontFile3 this)
     (setWhen (FontFile2 this) ''FontFile2'' (FontFile2 this)
     (setWhen (FontFile this) ''FontFile'' (FontFile this)
     (setWhen (MissingWidth this) ''MissingWidth'' (MissingWidth this)
     (setWhen (MaxWidth this) ''MaxWidth'' (MaxWidth this)
     (setWhen (AvgWidth this) ''AvgWidth'' (AvgWidth this)
     (setWhen (StemH this) ''StemH'' (StemH this)
     (setWhen (StemV this) ''StemV'' (StemV this)
     (setWhen (XHeight this) ''XHeight'' (XHeight this)
     (setWhen (CapHeight this) ''CapHeight'' (CapHeight this)
     (setWhen (Leading this) ''Leading'' (Leading this)
     (setWhen (Descent this) ''Descent'' (Descent this)
     (setWhen (Ascent this) ''Ascent'' (Ascent this)
     (setWhen (ItalicAngle this) ''ItalicAngle'' (ItalicAngle this)
     (setWhen (FontBBox this) ''FontBBox'' (FontBBox this)
     (setWhen (Flags this) ''Flags'' (Flags this)
     (setWhen (FontWeight this) ''FontWeight'' (FontWeight this)
     (setWhen (FontStretch this) ''FontStretch'' (FontStretch this)
     (setWhen (FontFamily this) ''FontFamily'' (FontFamily this)
     (setWhen (FontName this) ''FontName'' (FontName this)
     (Set_dict MakeDict ''Type'' (PdfObjectName ''FontDescriptor''))
     )))))))))))))))))))))))))"

text \<open>
  \<^verbatim>\<open>PdfFontDescriptor.ToPdfObject\<close> (lines 625-735): the container is made when there
  is none, the dictionary becomes its content, and the container is returned. The
  descriptor is changed (its container), so it is returned too.
\<close>

definition descriptorToPdfObject :: "PdfFontDescriptor \<Rightarrow> PdfFontDescriptor \<times> PdfObject" where
  "descriptorToPdfObject this =
     (let c = (if container this = nil then PdfIndirectObject 0 nil else container this);
          c' = (case c of
                  PdfIndirectObject n content \<Rightarrow>
                    PdfIndirectObject n (PdfObjectDictionary (descriptorDict this))
                | other \<Rightarrow> other)
      in (this\<lparr>container := c'\<rparr>, c'))"

section \<open>The common font header\<close>

text \<open>\<^verbatim>\<open>toUnicodeToCmap\<close> (lines 468-485).\<close>

definition toUnicodeToCmap :: "collaborators \<Rightarrow> PdfObject \<Rightarrow> fontSkeleton \<Rightarrow> error + CMap" where
  "toUnicodeToCmap E toUni font =
     (case toUni of
        PdfObjectStream n d bytes \<Rightarrow>
          (case DecodeStream E toUni of
             Inl err \<Rightarrow> Inl err
           | Inr data \<Rightarrow> LoadCmapFromData E data (\<not> isCIDFont font))
      | _ \<Rightarrow> Inl ErrTypeError)"

text \<open>
  \<^verbatim>\<open>newFontSkeletonFromPdfObject\<close> (lines 395-465). The checks run in the order of the
  source: the dictionary, \<^verbatim>\<open>Type\<close>, \<^verbatim>\<open>Subtype\<close> (and its value Type3), \<^verbatim>\<open>BaseFont\<close>,
  the font descriptor, the \<^verbatim>\<open>ToUnicode\<close> stream.
\<close>

definition newFontSkeletonFromPdfObject :: "collaborators \<Rightarrow> PdfObject \<Rightarrow> error + fontSkeleton" where
  "newFontSkeletonFromPdfObject E fontObj =
     (let font0 =
        \<lparr> basefont = '''', subtype = '''', toUnicode = nil, toUnicodeCmap = None,
          fontDescriptor = None, dict = None,
          objectNumber = (case fontObj of PdfIndirectObject n content \<Rightarrow> n | _ \<Rightarrow> 0) \<rparr>
      in
      case TraceToDirectObject fontObj of
        PdfObjectDictionary d \<Rightarrow>
          (let font1 = font0\<lparr>dict := Some d\<rparr> in
           case GetName (TraceToDirectObject (Get d ''Type'')) of
             None \<Rightarrow> Inl ErrRequiredAttributeMissing
           | Some objtype \<Rightarrow>
               if objtype \<noteq> ''Font'' then Inl ErrTypeError
               else
               (case GetName (TraceToDirectObject (Get d ''Subtype'')) of
                  None \<Rightarrow> Inl ErrRequiredAttributeMissing
                | Some st \<Rightarrow>
                    (let font2 = font1\<lparr>subtype := st\<rparr> in
                     if st = ''Type3'' then Inl ErrFontNotSupported
                     else
                     (case GetName (TraceToDirectObject (Get d ''BaseFont'')) of
                        None \<Rightarrow> Inl ErrRequiredAttributeMissing
                      | Some bf \<Rightarrow>
                          (let font3 = font2\<lparr>basefont := bf\<rparr> in
                           case (if Get d ''FontDescriptor'' \<noteq> nil
                                 then (case newPdfFontDescriptorFromPdfObject E
                                              (Get d ''FontDescriptor'') of
                                         (fd, Some err) \<Rightarrow> Inl err
                                       | (fd, None) \<Rightarrow> Inr (font3\<lparr>fontDescriptor := fd\<rparr>))
                                 else Inr font3) of
                             Inl err \<Rightarrow> Inl err
                           | Inr font4 \<Rightarrow>
                               if Get d ''ToUnicode'' \<noteq> nil
                               then (let font5 = font4\<lparr>toUnicode :=
                                           TraceToDirectObject (Get d ''ToUnicode'')\<rparr> in
                                     case toUnicodeToCmap E (toUnicode font5) font5 of
                                       Inl err \<Rightarrow> Inl err
                                     | Inr codemap \<Rightarrow>
                                         Inr (font5\<lparr>toUnicodeCmap := Some codemap\<rparr>))
                               else Inr font4)))))
      | _ \<Rightarrow> Inl ErrFontNotSupported)"

section \<open>Constructing a font\<close>

text \<open>\<^verbatim>\<open>NewStandard14Font\<close> (lines 66-78).\<close>

definition NewStandard14Font :: "collaborators \<Rightarrow> string \<Rightarrow> error + PdfFont" where
  "NewStandard14Font E bf =
     (case Standard14Fonts E bf of
        None \<Rightarrow> Inl ErrFontNotSupported
      | Some std \<Rightarrow>
          Inr (PdfFont
                 \<lparr> basefont = bf, subtype = ''Type1'', toUnicode = nil, toUnicodeCmap = None,
                   fontDescriptor = None, dict = None, objectNumber = 0 \<rparr>
                 (FontStd14 std)))"

text \<open>
  \<^verbatim>\<open>newPdfFontFromPdfObject\<close> (lines 90-156). The error of the default branch is made by
  \<^verbatim>\<open>fmt.Errorf\<close> from the font; it is given by the subtype and the base font.
\<close>

definition newPdfFontFromPdfObject :: "collaborators \<Rightarrow> PdfObject \<Rightarrow> bool \<Rightarrow> error + PdfFont" where
  "newPdfFontFromPdfObject E fontObj allowType0 =
     (case newFontSkeletonFromPdfObject E fontObj of
        Inl err \<Rightarrow> Inl err
      | Inr skel \<Rightarrow>
          if subtype skel = ''Type0'' then
            (if \<not> allowType0 then Inl (ErrorsNew ''Cyclical type0 loading'')
             else (case newPdfFontType0FromPdfObject E skel of
                     Inl err \<Rightarrow> Inl err
                   | Inr type0font \<Rightarrow> Inr (PdfFont skel (FontType0 type0font))))
          else if subtype skel = ''Type1'' \<or> subtype skel = ''Type3''
                  \<or> subtype skel = ''MMType1'' \<or> subtype skel = ''TrueType'' then
            (case (case Standard14Fonts E (basefont skel) of
                     Some std \<Rightarrow>
                       if subtype skel = ''Type1'' then
                         (case newFontSkeletonFromPdfObject E
                                 (TraceToDirectObject (std14ToPdfObject E std)) of
                            Inl err \<Rightarrow> Inl err
                          | Inr stdSkeleton \<Rightarrow> newSimpleFontFromPdfObject E stdSkeleton True)
                       else newSimpleFontFromPdfObject E skel False
                   | None \<Rightarrow> newSimpleFontFromPdfObject E skel False) of
               Inl err \<Rightarrow> Inl err
             | Inr simplefont \<Rightarrow>
                 (case addEncoding E simplefont of
                    Inl err \<Rightarrow> Inl err
                  | Inr simplefont' \<Rightarrow> Inr (PdfFont skel (FontSimple simplefont'))))
          else if subtype skel = ''CIDFontType0'' then
            (case newPdfCIDFontType0FromPdfObject E skel of
               Inl err \<Rightarrow> Inl err
             | Inr cidfont \<Rightarrow> Inr (PdfFont skel (FontCIDType0 cidfont)))
          else if subtype skel = ''CIDFontType2'' then
            (case newPdfCIDFontType2FromPdfObject E skel of
               Inl err \<Rightarrow> Inl err
             | Inr cidfont \<Rightarrow> Inr (PdfFont skel (FontCIDType2 cidfont)))
          else Inl (ErrUnsupportedFontType (subtype skel) (basefont skel)))"

text \<open>\<^verbatim>\<open>NewPdfFontFromPdfObject\<close> (lines 82-84).\<close>

definition NewPdfFontFromPdfObject :: "collaborators \<Rightarrow> PdfObject \<Rightarrow> error + PdfFont" where
  "NewPdfFontFromPdfObject E fontObj = newPdfFontFromPdfObject E fontObj True"

section \<open>Concrete collaborators and fonts\<close>

text \<open>
  One choice of the collaborators and a few fonts, on which the definitions above are
  evaluated. The sentinel is the UTF-8 encoding of U+FFFD; the encoder resolves the
  codes below 0x80 to themselves; \<open>asciiRuneToString\<close> gives the one-byte string of
  such a rune.
\<close>

definition asciiEncoder :: TextEncoder where
  "asciiEncoder = TextEncoder (\<lambda>code. if code < 0x80 then (uint code, True) else (0, False))"

definition asciiRuneToString :: "rune \<Rightarrow> string" where
  "asciiRuneToString r = [char_of r]"

definition replacementString :: string where
  "replacementString = [CHR 0xEF, CHR 0xBF, CHR 0xBD]"

text \<open>
  Modelled from the spec: the table \<^verbatim>\<open>fonts.Standard14Fonts\<close> is declared outside this
  file. The spec (section 3) gives it as 14 fixed fonts selected by exact name: four
  Courier, four Helvetica, four Times, Symbol and ZapfDingbats.
\<close>

definition standard14Table :: "(string \<times> std14Font) list" where
  "standard14Table =
     [(''Courier'', Std14Font FontCourier (Some asciiEncoder)),
      (''Courier-Bold'', Std14Font FontCourierBold (Some asciiEncoder)),
      (''Courier-BoldOblique'', Std14Font FontCourierBoldOblique (Some asciiEncoder)),
      (''Courier-Oblique'', Std14Font FontCourierOblique (Some asciiEncoder)),
      (''Helvetica'', Std14Font FontHelvetica (Some asciiEncoder)),
      (''Helvetica-Bold'', Std14Font FontHelveticaBold (Some asciiEncoder)),
      (''Helvetica-BoldOblique'', Std14Font FontHelveticaBoldOblique (Some asciiEncoder)),
      (''Helvetica-Oblique'', Std14Font FontHelveticaOblique (Some asciiEncoder)),
      (''Times-Roman'', Std14Font FontTimesRoman (Some asciiEncoder)),
      (''Times-Bold'', Std14Font FontTimesBold (Some asciiEncoder)),
      (''Times-BoldItalic'', Std14Font FontTimesBoldItalic (Some asciiEncoder)),
      (''Times-Italic'', Std14Font FontTimesItalic (Some asciiEncoder)),
      (''Symbol'', Std14Font FontSymbol (Some asciiEncoder)),
      (''ZapfDingbats'', Std14Font FontZapfDingbats (Some asciiEncoder))]"

definition exampleCollaborators :: collaborators where
  "exampleCollaborators =
     \<lparr> Standard14Fonts = map_of standard14Table,
       std14ToPdfObject = (\<lambda>f. PdfObjectDictionary
          [(''Type'', PdfObjectName ''Font''), (''Subtype'', PdfObjectName ''Type1''),
           (''BaseFont'', PdfObjectName ''Standard'')]),
       DecodeStream = (\<lambda>obj. case obj of
            PdfObjectStream n d bytes \<Rightarrow> Inr bytes
          | _ \<Rightarrow> Inl (ErrCollaborator ''DecodeStream'')),
       LoadCmapFromData = (\<lambda>data strict. Inr (CMap ''Example'' (\<lambda>code. ('''', False)))),
       newFontFileFromPdfObject = (\<lambda>obj. Inl (ErrCollaborator ''newFontFileFromPdfObject'')),
       NewFontFile2FromPdfObject = (\<lambda>obj. Inl (ErrCollaborator ''NewFontFile2FromPdfObject'')),
       newPdfFontType0FromPdfObject =
         (\<lambda>skel. Inl (ErrCollaborator ''newPdfFontType0FromPdfObject'')),
       newSimpleFontFromPdfObject = (\<lambda>skel std. Inr (PdfFontSimple None)),
       addEncoding = (\<lambda>f. Inr (PdfFontSimple (Some asciiEncoder))),
       newPdfCIDFontType0FromPdfObject = (\<lambda>skel. Inr (PdfCIDFontType0 None)),
       newPdfCIDFontType2FromPdfObject = (\<lambda>skel. Inr (PdfCIDFontType2 None)),
       MissingCodeString = replacementString,
       RuneToString = asciiRuneToString \<rparr>"

definition exampleSkeleton :: "string \<Rightarrow> CMap option \<Rightarrow> fontSkeleton" where
  "exampleSkeleton st cm =
     \<lparr> basefont = ''Example'', subtype = st, toUnicode = nil, toUnicodeCmap = cm,
       fontDescriptor = None, dict = None, objectNumber = 0 \<rparr>"

text \<open>A simple font with the encoder above and no explicit mapping table.\<close>

definition simpleFont :: PdfFont where
  "simpleFont =
     PdfFont (exampleSkeleton ''TrueType'' None) (FontSimple (PdfFontSimple (Some asciiEncoder)))"

text \<open>
  A table that maps the code 0x41 to a string of three runes and the code 0x42 to a
  string of one rune, and misses every other code.
\<close>

definition exampleCMap :: CMap where
  "exampleCMap =
     CMap ''Example''
       (\<lambda>code. if code = 0x41 then (''ffi'', True)
               else if code = 0x42 then (''X'', True) else (replacementString, False))"

text \<open>A CID font with that table and no encoder.\<close>

definition cidFont :: PdfFont where
  "cidFont =
     PdfFont (exampleSkeleton ''CIDFontType2'' (Some exampleCMap))
       (FontCIDType2 (PdfCIDFontType2 None))"

text \<open>A simple font with both the table and the encoder: they disagree on 0x42.\<close>

definition mappedFont :: PdfFont where
  "mappedFont =
     PdfFont (exampleSkeleton ''Type1'' (Some exampleCMap))
       (FontSimple (PdfFontSimple (Some asciiEncoder)))"

text \<open>A font whose variant is missing: its \<^verbatim>\<open>Encoder()\<close> is nil.\<close>

definition bareFont :: PdfFont where
  "bareFont = PdfFont (exampleSkeleton ''Type1'' None) FontNil"

text \<open>
  A sentinel that is no valid UTF-8 string (one continuation byte), and a font whose
  table maps the code 0x41 to the lead byte of a four-byte encoding.
\<close>

definition continuationSentinel :: collaborators where
  "continuationSentinel = exampleCollaborators \<lparr> MissingCodeString := [CHR 0x80] \<rparr>"

definition leadByteFont :: PdfFont where
  "leadByteFont =
     PdfFont
       (exampleSkeleton ''TrueType''
          (Some (CMap ''Lead''
             (\<lambda>code. if code = 0x41 then ([CHR 0xF1], True) else ([], False)))))
       (FontSimple (PdfFontSimple (Some asciiEncoder)))"

text \<open>Font dictionaries: a well-formed one, and one for each way the header can fail.\<close>

definition goodFontDict :: PdfObjectDictionary where
  "goodFontDict =
     [(''Type'', PdfObjectName ''Font''), (''Subtype'', PdfObjectName ''TrueType''),
      (''BaseFont'', PdfObjectName ''Example'')]"

definition wrongTypeDict :: PdfObjectDictionary where
  "wrongTypeDict =
     [(''Type'', PdfObjectName ''Page''), (''Subtype'', PdfObjectName ''TrueType''),
      (''BaseFont'', PdfObjectName ''Example'')]"

definition noTypeDict :: PdfObjectDictionary where
  "noTypeDict =
     [(''Subtype'', PdfObjectName ''TrueType''), (''BaseFont'', PdfObjectName ''Example'')]"

definition noSubtypeDict :: PdfObjectDictionary where
  "noSubtypeDict =
     [(''Type'', PdfObjectName ''Font''), (''BaseFont'', PdfObjectName ''Example'')]"

definition noBaseFontDict :: PdfObjectDictionary where
  "noBaseFontDict =
     [(''Type'', PdfObjectName ''Font''), (''Subtype'', PdfObjectName ''TrueType'')]"

definition type3Dict :: PdfObjectDictionary where
  "type3Dict =
     [(''Type'', PdfObjectName ''Font''), (''Subtype'', PdfObjectName ''Type3''),
      (''BaseFont'', PdfObjectName ''Example'')]"

text \<open>
  A CID font dictionary, a composite font over it, and a composite font whose
  descendant is declared Type0 itself.
\<close>

definition cidFontDict :: PdfObjectDictionary where
  "cidFontDict =
     [(''Type'', PdfObjectName ''Font''), (''Subtype'', PdfObjectName ''CIDFontType2''),
      (''BaseFont'', PdfObjectName ''Inner'')]"

definition innerType0Dict :: PdfObjectDictionary where
  "innerType0Dict =
     [(''Type'', PdfObjectName ''Font''), (''Subtype'', PdfObjectName ''Type0''),
      (''BaseFont'', PdfObjectName ''Inner'')]"

definition compositeDict :: PdfObjectDictionary where
  "compositeDict =
     [(''Type'', PdfObjectName ''Font''), (''Subtype'', PdfObjectName ''Type0''),
      (''BaseFont'', PdfObjectName ''Outer''),
      (''DescendantFonts'', PdfObjectArray [PdfObjectDictionary cidFontDict])]"

definition nestedCompositeDict :: PdfObjectDictionary where
  "nestedCompositeDict =
     [(''Type'', PdfObjectName ''Font''), (''Subtype'', PdfObjectName ''Type0''),
      (''BaseFont'', PdfObjectName ''Outer''),
      (''DescendantFonts'', PdfObjectArray [PdfObjectDictionary innerType0Dict])]"

text \<open>
  Modelled from the spec: \<^verbatim>\<open>newPdfFontType0FromPdfObject\<close> is defined outside this file.
  The spec (section 4.3) has it parse the nested descendant-font dictionary and resolve
  it with the construction of a nested composite font disallowed. These collaborators
  do so, with the descendant taken from the one-element array \<^verbatim>\<open>DescendantFonts\<close>.
\<close>

definition type0Collaborators :: collaborators where
  "type0Collaborators =
     exampleCollaborators
       \<lparr> newPdfFontType0FromPdfObject :=
           (\<lambda>skel. case dict skel of
              None \<Rightarrow> Inl (ErrCollaborator ''newPdfFontType0FromPdfObject'')
            | Some d \<Rightarrow>
                (case TraceToDirectObject (Get d ''DescendantFonts'') of
                   PdfObjectArray [descendant] \<Rightarrow>
                     (case newPdfFontFromPdfObject exampleCollaborators descendant False of
                        Inl err \<Rightarrow> Inl err
                      | Inr df \<Rightarrow> Inr (PdfFontType0 df None))
                 | _ \<Rightarrow> Inl (ErrCollaborator ''newPdfFontType0FromPdfObject''))) \<rparr>"

text \<open>A font descriptor dictionary with the entries of a CID font.\<close>

definition cidDescriptorDict :: PdfObjectDictionary where
  "cidDescriptorDict =
     [(''Type'', PdfObjectName ''FontDescriptor''),
      (''FontName'', PdfObjectName ''Example''),
      (''Flags'', PdfObjectInteger 32),
      (''Style'', PdfObjectDictionary [(''Panose'', PdfObjectString ''panose'')]),
      (''Lang'', PdfObjectName ''en''),
      (''FD'', PdfObjectDictionary []),
      (''CIDSet'', PdfObjectStream 9 [] [0x80])]"

section \<open>Properties of the rune conversion\<close>

text \<open>A continuation byte of UTF-8 lies in 0x80..0xBF.\<close>

definition isCont :: "char \<Rightarrow> bool" where
  "isCont c \<longleftrightarrow> 0x80 \<le> byteval c \<and> byteval c \<le> 0xBF"

text \<open>
  The invariant of the loop of lines 192-214: the joined strings split into a part
  whose runes no later byte can change and that holds at least \<^verbatim>\<open>numMisses\<close> runes,
  and a rest.
\<close>

definition missesCounted :: "string list \<times> nat \<Rightarrow> bool" where
  "missesCounted st \<longleftrightarrow>
     (case st of (charstrings, numMisses) \<Rightarrow>
        (\<exists>a b. concat charstrings = a @ b
           \<and> (\<forall>ys. runes (a @ ys) = runes a @ runes ys)
           \<and> numMisses \<le> length (runes a)))"

lemma acceptRange_Some:
  "acceptRange b = Some (sz, lo, hi) \<Longrightarrow> 2 \<le> sz \<and> sz \<le> 4 \<and> 0x80 \<le> lo \<and> hi \<le> 0xBF"
  by (auto simp: acceptRange_def split: if_splits)

lemma acceptRange_None_low: "b < 0xC2 \<Longrightarrow> acceptRange b = None"
  by (simp add: acceptRange_def)

lemma Decode_size_le:
  assumes "DecodeRuneInString s = (r, n)"
  shows "n \<le> length s"
proof (cases s)
  case Nil
  with assms show ?thesis by simp
next
  case (Cons c t)
  show ?thesis
  proof (cases "acceptRange (byteval c)")
    case None
    with assms Cons show ?thesis by (auto simp: Let_def split: if_splits)
  next
    case (Some u)
    obtain sz lo hi where u: "u = (sz, lo, hi)" by (cases u)
    from Some u acceptRange_Some have "2 \<le> sz" "sz \<le> 4" by blast+
    with assms Cons Some u show ?thesis
      by (auto simp: Let_def Suc_le_eq split: if_splits)
  qed
qed

lemma Decode_append_valid:
  assumes "DecodeRuneInString (c # s) = (r, n)" "\<not> (r = RuneError \<and> n = 1)"
  shows "DecodeRuneInString ((c # s) @ ys) = (r, n)"
proof (cases "byteval c < 0x80")
  case True
  with assms show ?thesis by simp
next
  case False
  show ?thesis
  proof (cases "acceptRange (byteval c)")
    case None
    with assms False show ?thesis by simp
  next
    case (Some t)
    obtain sz lo hi where t: "t = (sz, lo, hi)" by (cases t)
    from Some t acceptRange_Some have sz: "2 \<le> sz" "sz \<le> 4" by blast+
    from assms False Some t have len: "sz \<le> Suc (length s)"
      by (auto simp: Let_def split: if_splits)
    then have nth: "\<And>i. Suc i < sz \<Longrightarrow> (s @ ys) ! i = s ! i"
      by (simp add: nth_append)
    from sz have n0: "(s @ ys) ! 0 = s ! 0" using nth[of 0] by simp
    have n1: "2 < sz \<Longrightarrow> (s @ ys) ! 1 = s ! 1" using nth[of 1] by simp
    have n2: "3 < sz \<Longrightarrow> (s @ ys) ! 2 = s ! 2" using nth[of 2] by simp
    from assms False Some t len sz n0 n1 n2 show ?thesis
      by (auto simp: Let_def split: if_splits)
  qed
qed


lemma Decode_append_noncont:
  assumes "ys = [] \<or> \<not> isCont (hd ys)"
  shows "DecodeRuneInString ((c # s) @ ys) = DecodeRuneInString (c # s)"
proof (cases "ys = []")
  case True
  then show ?thesis by simp
next
  case ys: False
  with assms have nc: "\<not> isCont (hd ys)" by simp
  obtain r n where d: "DecodeRuneInString (c # s) = (r, n)" by (cases "DecodeRuneInString (c # s)")
  show ?thesis
  proof (cases "r = RuneError \<and> n = 1")
    case False
    with d Decode_append_valid show ?thesis by simp
  next
    case bad: True
    show ?thesis
    proof (cases "byteval c < 0x80")
      case True
      then show ?thesis by simp
    next
      case False
      show ?thesis
      proof (cases "acceptRange (byteval c)")
        case None
        with False show ?thesis by simp
      next
        case (Some t)
        obtain sz lo hi where t: "t = (sz, lo, hi)" by (cases t)
        from Some t acceptRange_Some
        have sz: "2 \<le> sz" "sz \<le> 4" "0x80 \<le> lo" "hi \<le> 0xBF" by blast+
        from nc have hd: "byteval (ys ! 0) < 0x80 \<or> 0xBF < byteval (ys ! 0)"
          using ys by (cases ys) (auto simp: isCont_def)
        consider "length s = 0" | "length s = 1" | "length s = 2" | "3 \<le> length s"
          by linarith
        then show ?thesis
        proof cases
          case 1
          with d bad False Some t sz hd ys show ?thesis
            by (auto simp: Let_def nth_append split: if_splits)
        next
          case 2
          then obtain a where s: "s = [a]" by (cases s) auto
          with d bad False Some t sz hd ys show ?thesis
            by (auto simp: Let_def nth_append split: if_splits)
        next
          case 3
          then obtain a b where s: "s = [a, b]"
            by (cases s; cases "tl s") auto
          with d bad False Some t sz hd ys show ?thesis
            by (auto simp: Let_def nth_append split: if_splits)
        next
          case 4
          have nth: "(s @ ys) ! 0 = s ! 0" "(s @ ys) ! 1 = s ! 1" "(s @ ys) ! 2 = s ! 2"
            using 4 by (auto simp: nth_append)
          with 4 d bad False Some t sz show ?thesis
            by (auto simp: Let_def split: if_splits)
        qed
      qed
    qed
  qed
qed

lemma runes_append_noncont:
  "ys = [] \<or> \<not> isCont (hd ys) \<Longrightarrow> runes (xs @ ys) = runes xs @ runes ys"
proof (induction xs rule: runes.induct)
  case 1
  then show ?case by simp
next
  case (2 c s)
  obtain r n where d: "DecodeRuneInString (c # s) = (r, n)"
    by (cases "DecodeRuneInString (c # s)")
  with 2(2) have d': "DecodeRuneInString (c # s @ ys) = (r, n)"
    using Decode_append_noncont[of ys c s] by simp
  from d have n: "n \<le> length (c # s)" by (rule Decode_size_le)
  then have dr: "drop n (c # s @ ys) = drop n (c # s) @ ys"
    by (cases n) auto
  from 2(1)[OF d[symmetric] 2(2)] d d' dr
  show ?case by (simp del: DecodeRuneInString.simps)
qed

lemma ValidString_hd: "ValidString (c # s) \<Longrightarrow> \<not> isCont c"
  by (auto simp: isCont_def Let_def acceptRange_None_low split: prod.splits)

lemma runes_append_valid:
  "ValidString xs \<Longrightarrow> runes (xs @ ys) = runes xs @ runes ys"
proof (induction xs rule: runes.induct)
  case 1
  then show ?case by simp
next
  case (2 c s)
  obtain r n where d: "DecodeRuneInString (c # s) = (r, n)"
    by (cases "DecodeRuneInString (c # s)")
  from 2(2) d have ok: "\<not> (r = RuneError \<and> n = 1)" and v: "ValidString (drop n (c # s))"
    by (simp_all del: DecodeRuneInString.simps)
  from d ok have d': "DecodeRuneInString (c # s @ ys) = (r, n)"
    using Decode_append_valid[of c s r n ys] by simp
  from d have n: "n \<le> length (c # s)" by (rule Decode_size_le)
  then have dr: "drop n (c # s @ ys) = drop n (c # s) @ ys"
    by (cases n) auto
  from 2(1)[OF d[symmetric] v] d d' dr
  show ?case by (simp del: DecodeRuneInString.simps)
qed

lemma runes_nonempty: "s \<noteq> [] \<Longrightarrow> runes s \<noteq> []"
  by (cases s) (auto simp del: DecodeRuneInString.simps split: prod.splits)

section \<open>The character codes of the input\<close>

lemma be16_bits:
  fixes a b :: byte
  shows "\<not> bit (push_bit 8 (ucast a :: uint16)) n \<or> \<not> bit (ucast b :: uint16) n"
  by (auto simp: bit_push_bit_iff bit_ucast_iff dest: bit_imp_le_length)

lemma be16:
  fixes a b :: byte
  shows "push_bit 8 (ucast a) OR ucast b = (word_of_nat (256 * unat a + unat b) :: uint16)"
proof -
  have "push_bit 8 (ucast a :: uint16) OR ucast b = push_bit 8 (ucast a) + ucast b"
    by (rule disjunctive_add[symmetric]) (rule be16_bits)
  also have "\<dots> = word_of_nat (256 * unat a + unat b)"
    by (simp add: push_bit_eq_mult)
  finally show ?thesis .
qed

lemma cidCharcodes_spec:
  "even (length data) \<Longrightarrow> even i \<Longrightarrow>
     cidCharcodes data i acc = Inr (acc @ bigEndianCodes (drop i data))"
proof (induction data i acc rule: cidCharcodes.induct)
  case (1 data i charcodes)
  show ?case
  proof (cases "i < length data")
    case False
    then show ?thesis by (subst cidCharcodes.simps) simp
  next
    case True
    from 1(2,3) have "Suc i \<noteq> length data" by (metis even_Suc)
    with True have s: "Suc i < length data" by simp
    have d: "drop i data = data ! i # data ! Suc i # drop (i + 2) data"
      using True s by (simp add: Cons_nth_drop_Suc)
    from 1(3) have e: "even (i + 2)" by simp
    have "cidCharcodes data i charcodes =
        cidCharcodes data (i + 2)
          (charcodes @ [push_bit 8 (ucast (data ! i)) OR ucast (data ! Suc i)])"
      using True s by (subst cidCharcodes.simps) simp
    also have "\<dots> = Inr ((charcodes @ [push_bit 8 (ucast (data ! i)) OR ucast (data ! Suc i)])
        @ bigEndianCodes (drop (i + 2) data))"
      using True s 1(2) e by (rule 1(1))
    also have "\<dots> = Inr (charcodes @ bigEndianCodes (drop i data))"
      by (simp only: d bigEndianCodes.simps be16) simp
    finally show ?thesis .
  qed
qed

lemma byteCharcodes_spec: "byteCharcodes data acc = acc @ singleByteCodes data"
  by (induction data arbitrary: acc) (simp_all add: singleByteCodes_def)

lemma even_length_cidPadded: "even (length (cidPadded data))"
  by (simp add: cidPadded_def)

lemma splitCharcodes_spec: "splitCharcodes font data = Inr (specCharcodes font data)"
proof (cases "isCIDFont (skeleton font)")
  case False
  then show ?thesis
    by (simp add: splitCharcodes_def specCharcodes_def byteCharcodes_spec)
next
  case True
  have one: "length data = 1 \<Longrightarrow> data ! 0 = hd data"
    by (cases data) auto
  have "splitCharcodes font data = cidCharcodes (cidPadded data) 0 []"
    using True one by (auto simp: splitCharcodes_def cidPadded_def Let_def odd_iff_mod_2_eq_one)
  also have "\<dots> = Inr ([] @ bigEndianCodes (drop 0 (cidPadded data)))"
    by (rule cidCharcodes_spec) (simp_all add: even_length_cidPadded)
  finally show ?thesis using True by (simp add: specCharcodes_def)
qed

section \<open>The miss counter and the rune count\<close>

lemma missesCounted_init: "missesCounted ([], 0)"
  by (simp add: missesCounted_def)

lemma missesCounted_hit:
  assumes "missesCounted (cs, n)"
  shows "missesCounted (cs @ [r], n)"
proof -
  from assms obtain a b where ab: "concat cs = a @ b"
    and cl: "\<forall>ys. runes (a @ ys) = runes a @ runes ys" and n: "n \<le> length (runes a)"
    unfolding missesCounted_def by auto
  from ab have "concat (cs @ [r]) = a @ (b @ r)" by simp
  with cl n show ?thesis unfolding missesCounted_def by blast
qed

lemma missesCounted_miss:
  assumes "missesCounted (cs, n)" and v: "ValidString M" and ne: "M \<noteq> []"
  shows "missesCounted (cs @ [M], n + 1)"
proof -
  from assms obtain a b where ab: "concat cs = a @ b"
    and cl: "\<forall>ys. runes (a @ ys) = runes a @ runes ys" and n: "n \<le> length (runes a)"
    unfolding missesCounted_def by auto
  from v ne have nc: "\<not> isCont (hd M)" using ValidString_hd[of "hd M" "tl M"] by simp
  have split: "runes ((a @ b @ M) @ ys) = runes a @ runes b @ runes M @ runes ys" for ys
  proof -
    have "runes ((a @ b @ M) @ ys) = runes (a @ (b @ M @ ys))" by simp
    also have "\<dots> = runes a @ runes (b @ (M @ ys))" using cl by simp
    also have "runes (b @ (M @ ys)) = runes b @ runes (M @ ys)"
      using nc ne by (intro runes_append_noncont) simp
    also have "runes (M @ ys) = runes M @ runes ys" using v by (rule runes_append_valid)
    finally show ?thesis .
  qed
  from split[of "[]"] have whole: "runes (a @ b @ M) = runes a @ runes b @ runes M" by simp
  have closed: "\<forall>ys. runes ((a @ b @ M) @ ys) = runes (a @ b @ M) @ runes ys"
    using split whole by simp
  from ne have "runes M \<noteq> []" by (rule runes_nonempty)
  then have "1 \<le> length (runes M)" by (cases "runes M") auto
  with n whole have cnt: "n + 1 \<le> length (runes (a @ b @ M))" by simp
  from ab have "concat (cs @ [M]) = (a @ b @ M) @ []" by simp
  with closed cnt show ?thesis unfolding missesCounted_def by blast
qed

lemma missesCounted_decodeCharcode:
  assumes inv: "missesCounted st"
    and v: "ValidString (MissingCodeString E)" and ne: "MissingCodeString E \<noteq> []"
  shows "missesCounted (decodeCharcode E font code st)"
proof -
  obtain cs n where st: "st = (cs, n)" by (cases st)
  from inv st have i: "missesCounted (cs, n)" by simp
  have hit: "missesCounted (cs @ [r], n)" for r using i by (rule missesCounted_hit)
  have miss: "missesCounted (cs @ [MissingCodeString E], Suc n)"
    using missesCounted_miss[OF i v ne] by simp
  show ?thesis
    unfolding decodeCharcode_def st
    by (simp add: i hit miss split: option.split prod.split)
qed

lemma missesCounted_decodeCharcodes:
  assumes v: "ValidString (MissingCodeString E)" and ne: "MissingCodeString E \<noteq> []"
  shows "missesCounted st \<Longrightarrow> missesCounted (decodeCharcodes E font charcodes st)"
proof (induction charcodes arbitrary: st)
  case Nil
  then show ?case by simp
next
  case (Cons code charcodes)
  from Cons.prems v ne have "missesCounted (decodeCharcode E font code st)"
    by (rule missesCounted_decodeCharcode)
  then show ?case using Cons.IH by simp
qed

lemma missesCounted_joinResult:
  assumes "missesCounted st"
  shows "snd (snd (joinResult st)) \<le> fst (snd (joinResult st))"
proof -
  obtain cs n where st: "st = (cs, n)" by (cases st)
  from assms st obtain a b where ab: "concat cs = a @ b"
    and cl: "\<forall>ys. runes (a @ ys) = runes a @ runes ys" and n: "n \<le> length (runes a)"
    unfolding missesCounted_def by auto
  from ab cl have "runes (concat cs) = runes a @ runes b" by simp
  with n st show ?thesis by (simp add: joinResult_def Let_def)
qed

section \<open>Properties of \<^verbatim>\<open>CharcodeBytesToUnicode\<close>\<close>

text \<open>
  C1. For every font and every byte sequence, \<^verbatim>\<open>CharcodeBytesToUnicode\<close> returns a
  triple of text, code count and miss count (it does not panic), and the miss count is
  at most the code count. The sentinel \<^verbatim>\<open>cmap.MissingCodeString\<close> is a constant of
  another file: the theorem holds for every sentinel that is a non-empty valid UTF-8
  string.
\<close>

theorem CharcodeBytesToUnicode_total_misses_le:
  assumes "ValidString (MissingCodeString E)" "MissingCodeString E \<noteq> []"
  shows "\<exists>out n m. CharcodeBytesToUnicode E font data = Inr (out, n, m) \<and> m \<le> n"
proof -
  obtain cs where cs: "splitCharcodes font data = Inr cs"
    using splitCharcodes_spec by blast
  let ?st = "decodeCharcodes E font cs ([], 0)"
  have "missesCounted ?st"
    using assms missesCounted_init by (rule missesCounted_decodeCharcodes)
  then have le: "snd (snd (joinResult ?st)) \<le> fst (snd (joinResult ?st))"
    by (rule missesCounted_joinResult)
  obtain out n m where j: "joinResult ?st = (out, n, m)" by (cases "joinResult ?st")
  with le cs show ?thesis by (simp add: CharcodeBytesToUnicode_def)
qed

lemma ValidString_replacementString: "ValidString replacementString"
  by (simp add: replacementString_def byteval_def acceptRange_def RuneError_def)

lemma runes_replacementString: "runes replacementString = [RuneError]"
  by (simp add: replacementString_def byteval_def acceptRange_def RuneError_def)

theorem CharcodeBytesToUnicode_total_misses_le_witness:
  "ValidString (MissingCodeString exampleCollaborators)
   \<and> MissingCodeString exampleCollaborators \<noteq> []
   \<and> (\<exists>out n m. CharcodeBytesToUnicode exampleCollaborators simpleFont [0x41, 0xC8]
          = Inr (out, n, m) \<and> m \<le> n)"
proof -
  have v: "ValidString (MissingCodeString exampleCollaborators)"
    by (simp add: exampleCollaborators_def ValidString_replacementString)
  have ne: "MissingCodeString exampleCollaborators \<noteq> []"
    by (simp add: exampleCollaborators_def replacementString_def)
  from v ne CharcodeBytesToUnicode_total_misses_le[OF v ne, of simpleFont "[0x41, 0xC8]"]
  show ?thesis by simp
qed

text \<open>
  The condition on the sentinel is needed: with a sentinel of one continuation byte,
  three misses after the lead byte of a four-byte encoding join into a single rune.
\<close>

lemma misses_exceed_runes_for_invalid_sentinel:
  "\<not> ValidString (MissingCodeString continuationSentinel)
   \<and> CharcodeBytesToUnicode continuationSentinel leadByteFont [0x41, 0x80, 0x80, 0x80]
       = Inr ([CHR 0xF1, CHR 0x80, CHR 0x80, CHR 0x80], 1, 3)"
proof -
  have codes: "specCharcodes leadByteFont [0x41, 0x80, 0x80, 0x80] = [0x41, 0x80, 0x80, 0x80]"
    by (simp add: specCharcodes_def leadByteFont_def exampleSkeleton_def isCIDFont_def
        singleByteCodes_def)
  have e: "Encoder leadByteFont = Some asciiEncoder"
    by (simp add: leadByteFont_def Encoder_def)
  have hit: "decodeCharcode continuationSentinel leadByteFont 0x41 (cs, n)
      = (cs @ [[CHR 0xF1]], n)" for cs n
    by (simp add: decodeCharcode_def leadByteFont_def exampleSkeleton_def)
  have miss: "decodeCharcode continuationSentinel leadByteFont 0x80 (cs, n)
      = (cs @ [[CHR 0x80]], Suc n)" for cs n
  proof -
    have t: "toUnicodeCmap (skeleton leadByteFont)
        = Some (CMap ''Lead'' (\<lambda>code. if code = 0x41 then ([CHR 0xF1], True) else ([], False)))"
      by (simp add: leadByteFont_def exampleSkeleton_def)
    have m: "MissingCodeString continuationSentinel = [CHR 0x80]"
      by (simp add: continuationSentinel_def)
    have enc: "CharcodeToRune asciiEncoder 0x80 = (0, False)"
      by (simp add: asciiEncoder_def)
    show ?thesis by (simp add: decodeCharcode_def e t m enc)
  qed
  have r: "runes [CHR 0xF1, CHR 0x80, CHR 0x80, CHR 0x80] = [0x40000]"
    by (simp add: byteval_def acceptRange_def)
  have v: "\<not> ValidString (MissingCodeString continuationSentinel)"
    by (simp add: continuationSentinel_def exampleCollaborators_def byteval_def
        acceptRange_def RuneError_def)
  have "CharcodeBytesToUnicode continuationSentinel leadByteFont [0x41, 0x80, 0x80, 0x80]
      = Inr ([CHR 0xF1, CHR 0x80, CHR 0x80, CHR 0x80], 1, 3)"
    by (simp add: CharcodeBytesToUnicode_def splitCharcodes_spec codes hit miss joinResult_def
        Let_def r del: runes.simps)
  with v show ?thesis by simp
qed

text \<open>
  C2. For a CID font the input is split into two-byte big-endian codes, after padding
  an odd-length input with one trailing zero byte and treating a single byte \<open>b\<close> as
  the code of the bytes 0x00, \<open>b\<close>; for any other font each byte is a code of its own.
  \<open>specCharcodes\<close> is this splitting written from the specification; the code computes
  it, and decodes exactly these codes.
\<close>

theorem CharcodeBytesToUnicode_charcodes:
  "splitCharcodes font data = Inr (specCharcodes font data)
   \<and> CharcodeBytesToUnicode E font data
       = Inr (joinResult (decodeCharcodes E font (specCharcodes font data) ([], 0)))"
  by (simp add: CharcodeBytesToUnicode_def splitCharcodes_spec)

theorem CharcodeBytesToUnicode_charcodes_witness:
  "splitCharcodes cidFont [0x12, 0x34, 0x56] = Inr [0x1234, 0x5600]
   \<and> splitCharcodes cidFont [0x41] = Inr [0x0041]
   \<and> splitCharcodes cidFont [0x12, 0x34] = Inr [0x1234]
   \<and> splitCharcodes simpleFont [0x12, 0x34, 0x56] = Inr [0x12, 0x34, 0x56]"
proof -
  have cid: "isCIDFont (skeleton cidFont)"
    by (simp add: cidFont_def exampleSkeleton_def isCIDFont_def)
  have simple: "\<not> isCIDFont (skeleton simpleFont)"
    by (simp add: simpleFont_def exampleSkeleton_def isCIDFont_def)
  from cid simple
    CharcodeBytesToUnicode_charcodes[of cidFont "[0x12, 0x34, 0x56]"] 
    CharcodeBytesToUnicode_charcodes[of cidFont "[0x41]"]
    CharcodeBytesToUnicode_charcodes[of cidFont "[0x12, 0x34]"]
    CharcodeBytesToUnicode_charcodes[of simpleFont "[0x12, 0x34, 0x56]"]
  show ?thesis
    by (simp add: specCharcodes_def cidPadded_def singleByteCodes_def)
qed

text \<open>
  C3. The code count is the number of runes of the returned text. It is neither the
  number of input bytes nor the number of input character codes: a CID font whose
  table maps the one code of two input bytes to a string of three runes counts 3.
\<close>

theorem CharcodeBytesToUnicode_code_count:
  "(\<forall>E font data out n m.
      CharcodeBytesToUnicode E font data = Inr (out, n, m) \<longrightarrow> n = length (runes out))
   \<and> (\<exists>E font data out n m.
        CharcodeBytesToUnicode E font data = Inr (out, n, m)
        \<and> n \<noteq> length data \<and> n \<noteq> length (specCharcodes font data))"
proof (intro conjI allI impI)
  fix E font data out n m
  assume "CharcodeBytesToUnicode E font data = Inr (out, n, m)"
  then show "n = length (runes out)"
    by (auto simp: CharcodeBytesToUnicode_def joinResult_def Let_def
        split: sum.splits prod.splits)
next
  have cid: "isCIDFont (skeleton cidFont)"
    by (simp add: cidFont_def exampleSkeleton_def isCIDFont_def)
  have codes: "specCharcodes cidFont [0x00, 0x41] = [0x41]"
    using cid by (simp add: specCharcodes_def cidPadded_def)
  have step: "decodeCharcode exampleCollaborators cidFont 0x41 ([], 0) = ([''ffi''], 0)"
    by (simp add: decodeCharcode_def cidFont_def exampleSkeleton_def exampleCMap_def)
  have r: "runes ''ffi'' = [0x66, 0x66, 0x69]"
    by (simp add: byteval_def)
  have "CharcodeBytesToUnicode exampleCollaborators cidFont [0x00, 0x41] = Inr (''ffi'', 3, 0)"
    by (simp add: CharcodeBytesToUnicode_def splitCharcodes_spec codes step joinResult_def
        Let_def byteval_def)
  with codes show "\<exists>E font data out n m.
        CharcodeBytesToUnicode E font data = Inr (out, n, m)
        \<and> n \<noteq> length data \<and> n \<noteq> length (specCharcodes font data)"
    by (intro exI[of _ exampleCollaborators] exI[of _ cidFont] exI[of _ "[0x00, 0x41]"]
        exI[of _ "''ffi''"] exI[of _ 3] exI[of _ 0]) simp
qed

theorem CharcodeBytesToUnicode_code_count_witness:
  "CharcodeBytesToUnicode exampleCollaborators cidFont [0x00, 0x41] = Inr (''ffi'', 3, 0)
   \<and> 3 = length (runes ''ffi'')
   \<and> length [0x00, 0x41 :: byte] = 2
   \<and> length (specCharcodes cidFont [0x00, 0x41]) = 1"
proof -
  have cid: "isCIDFont (skeleton cidFont)"
    by (simp add: cidFont_def exampleSkeleton_def isCIDFont_def)
  have codes: "specCharcodes cidFont [0x00, 0x41] = [0x41]"
    using cid by (simp add: specCharcodes_def cidPadded_def)
  have step: "decodeCharcode exampleCollaborators cidFont 0x41 ([], 0) = ([''ffi''], 0)"
    by (simp add: decodeCharcode_def cidFont_def exampleSkeleton_def exampleCMap_def)
  have r: "runes ''ffi'' = [0x66, 0x66, 0x69]"
    by (simp add: byteval_def)
  have run: "CharcodeBytesToUnicode exampleCollaborators cidFont [0x00, 0x41]
      = Inr (''ffi'', 3, 0)"
    by (simp add: CharcodeBytesToUnicode_def splitCharcodes_spec codes step joinResult_def
        Let_def byteval_def)
  from CharcodeBytesToUnicode_code_count run have "3 = length (runes ''ffi'')"
    by blast
  with run codes show ?thesis by simp
qed

lemma decodeCharcodes_append:
  "decodeCharcodes E font (xs @ ys) st
     = decodeCharcodes E font ys (decodeCharcodes E font xs st)"
  by (induction xs arbitrary: st) simp_all

lemma decodeCharcode_table_hit:
  assumes "toUnicodeCmap (skeleton font) = Some cm"
    and "CharcodeToUnicode2 cm (ucast code) = (r, True)"
  shows "decodeCharcode E font code (charstrings, numMisses) = (charstrings @ [r], numMisses)"
  using assms by (simp add: decodeCharcode_def)

lemma decodeCharcodes_table_hits:
  assumes "toUnicodeCmap (skeleton font) = Some cm"
  shows "\<forall>code \<in> set codes. snd (CharcodeToUnicode2 cm (ucast code)) \<Longrightarrow>
     decodeCharcodes E font codes (charstrings, numMisses)
       = (charstrings @ map (\<lambda>code. fst (CharcodeToUnicode2 cm (ucast code))) codes,
          numMisses)"
proof (induction codes arbitrary: charstrings)
  case Nil
  show ?case by simp
next
  case (Cons code codes)
  from Cons.prems have "CharcodeToUnicode2 cm (ucast code)
      = (fst (CharcodeToUnicode2 cm (ucast code)), True)"
    by (cases "CharcodeToUnicode2 cm (ucast code)") simp
  with assms have step: "decodeCharcode E font code (charstrings, numMisses)
      = (charstrings @ [fst (CharcodeToUnicode2 cm (ucast code))], numMisses)"
    by (rule decodeCharcode_table_hit)
  from Cons.prems have rest: "\<forall>code \<in> set codes. snd (CharcodeToUnicode2 cm (ucast code))"
    by simp
  show ?case by (simp add: step Cons.IH[OF rest])
qed

lemma specCharcodes_variant:
  "specCharcodes (PdfFont (skeleton font) variant) data = specCharcodes font data"
  by (simp add: specCharcodes_def)

text \<open>
  C4. When the font has an explicit mapping table and the table resolves a code of the
  input, \<^verbatim>\<open>CharcodeBytesToUnicode\<close> appends the table's string for that code at its
  place and leaves the miss counter alone: with the codes before it decoded into a
  list of strings, the result is that list with the table's string appended, followed
  by the decoding of the codes after it. When the table resolves every code of the
  input, the result is the joined strings of the table with no miss, whatever the
  variant of the font, its built-in encoder and the collaborators are: the encoder has
  no part in it, even where it could resolve the codes. The encoder is reached only
  past a miss of the table or without a table.
\<close>

theorem explicit_mapping_takes_priority:
  assumes "toUnicodeCmap (skeleton font) = Some cm"
  shows
    "(specCharcodes font data = pre @ code # post
        \<and> CharcodeToUnicode2 cm (ucast code) = (r, True) \<longrightarrow>
      CharcodeBytesToUnicode E font data =
        Inr (joinResult (decodeCharcodes E font post
               (case decodeCharcodes E font pre ([], 0) of
                  (charstrings, numMisses) \<Rightarrow> (charstrings @ [r], numMisses)))))
     \<and> ((\<forall>code \<in> set (specCharcodes font data). snd (CharcodeToUnicode2 cm (ucast code))) \<longrightarrow>
         CharcodeBytesToUnicode E font data =
           Inr (tableText cm (specCharcodes font data),
                length (runes (tableText cm (specCharcodes font data))), 0)
         \<and> (\<forall>variant E'. CharcodeBytesToUnicode E' (PdfFont (skeleton font) variant) data =
               Inr (tableText cm (specCharcodes font data),
                    length (runes (tableText cm (specCharcodes font data))), 0)))"
proof (intro conjI impI allI)
  assume a: "specCharcodes font data = pre @ code # post
      \<and> CharcodeToUnicode2 cm (ucast code) = (r, True)"
  obtain cs n where p: "decodeCharcodes E font pre ([], 0) = (cs, n)"
    by (cases "decodeCharcodes E font pre ([], 0)")
  from a have hit: "CharcodeToUnicode2 cm (ucast code) = (r, True)" by simp
  have "decodeCharcode E font code (cs, n) = (cs @ [r], n)"
    by (rule decodeCharcode_table_hit[OF assms hit])
  with p have "decodeCharcodes E font (pre @ code # post) ([], 0)
      = decodeCharcodes E font post (cs @ [r], n)"
    by (simp add: decodeCharcodes_append)
  with a p show "CharcodeBytesToUnicode E font data =
        Inr (joinResult (decodeCharcodes E font post
               (case decodeCharcodes E font pre ([], 0) of
                  (charstrings, numMisses) \<Rightarrow> (charstrings @ [r], numMisses))))"
    by (simp add: CharcodeBytesToUnicode_def splitCharcodes_spec)
next
  assume all: "\<forall>code \<in> set (specCharcodes font data). snd (CharcodeToUnicode2 cm (ucast code))"
  have run: "CharcodeBytesToUnicode E' f data =
           Inr (tableText cm (specCharcodes font data),
                length (runes (tableText cm (specCharcodes font data))), 0)"
    if t: "toUnicodeCmap (skeleton f) = Some cm"
      and c: "specCharcodes f data = specCharcodes font data" for E' f
  proof -
    from all c
    have "\<forall>code \<in> set (specCharcodes f data). snd (CharcodeToUnicode2 cm (ucast code))"
      by simp
    with t have "decodeCharcodes E' f (specCharcodes f data) ([], 0)
        = ([] @ map (\<lambda>code. fst (CharcodeToUnicode2 cm (ucast code))) (specCharcodes f data), 0)"
      by (rule decodeCharcodes_table_hits)
    with c show ?thesis
      by (simp add: CharcodeBytesToUnicode_def splitCharcodes_spec joinResult_def Let_def
          tableText_def)
  qed
  from assms show "CharcodeBytesToUnicode E font data =
           Inr (tableText cm (specCharcodes font data),
                length (runes (tableText cm (specCharcodes font data))), 0)"
    by (intro run) simp_all
  fix variant E'
  from assms show "CharcodeBytesToUnicode E' (PdfFont (skeleton font) variant) data =
           Inr (tableText cm (specCharcodes font data),
                length (runes (tableText cm (specCharcodes font data))), 0)"
    by (intro run) (simp_all add: specCharcodes_variant)
qed

theorem explicit_mapping_takes_priority_witness:
  "toUnicodeCmap (skeleton mappedFont) = Some exampleCMap
   \<and> (\<exists>encoder. Encoder mappedFont = Some encoder
         \<and> CharcodeToRune encoder 0x42 = (0x42, True)
         \<and> CharcodeToRune encoder 0x41 = (0x41, True))
   \<and> CharcodeBytesToUnicode exampleCollaborators mappedFont [0x42, 0x41]
       = Inr (''Xffi'', 4, 0)
   \<and> CharcodeBytesToUnicode exampleCollaborators mappedFont [0x43, 0x42, 0x43]
       = Inr (''CXC'', 3, 0)"
proof -
  have t: "toUnicodeCmap (skeleton mappedFont) = Some exampleCMap"
    by (simp add: mappedFont_def exampleSkeleton_def)
  have e: "Encoder mappedFont = Some asciiEncoder"
    by (simp add: mappedFont_def Encoder_def)
  have c: "CharcodeToRune asciiEncoder 0x42 = (0x42, True)"
    "CharcodeToRune asciiEncoder 0x41 = (0x41, True)"
    "CharcodeToRune asciiEncoder 0x43 = (0x43, True)"
    by (simp_all add: asciiEncoder_def)
  have codes: "specCharcodes mappedFont data = singleByteCodes data" for data
    by (simp add: specCharcodes_def mappedFont_def exampleSkeleton_def isCIDFont_def)
  have h: "CharcodeToUnicode2 exampleCMap (ucast (0x42 :: uint16)) = (''X'', True)"
    "CharcodeToUnicode2 exampleCMap (ucast (0x41 :: uint16)) = (''ffi'', True)"
    by (simp_all add: exampleCMap_def)
  have all: "\<forall>code \<in> set (specCharcodes mappedFont [0x42, 0x41]).
      snd (CharcodeToUnicode2 exampleCMap (ucast code))"
    by (simp add: codes singleByteCodes_def exampleCMap_def)
  have tt: "tableText exampleCMap (specCharcodes mappedFont [0x42, 0x41]) = ''Xffi''"
    by (simp add: codes singleByteCodes_def tableText_def exampleCMap_def)
  have r: "length (runes ''Xffi'') = 4"
    by (simp add: byteval_def)
  have whole: "CharcodeBytesToUnicode exampleCollaborators mappedFont [0x42, 0x41]
       = Inr (''Xffi'', 4, 0)"
  proof -
    from explicit_mapping_takes_priority[OF t, where data = "[0x42, 0x41]"
        and E = exampleCollaborators] all
    have "CharcodeBytesToUnicode exampleCollaborators mappedFont [0x42, 0x41]
        = Inr (tableText exampleCMap (specCharcodes mappedFont [0x42, 0x41]),
               length (runes (tableText exampleCMap (specCharcodes mappedFont [0x42, 0x41]))), 0)"
      by blast
    then show ?thesis by (simp only: tt r)
  qed
  have split: "specCharcodes mappedFont [0x43, 0x42, 0x43] = [0x43] @ 0x42 # [0x43]"
    by (simp add: codes singleByteCodes_def)
  have miss: "decodeCharcode exampleCollaborators mappedFont 0x43 (cs, n) = (cs @ [''C''], n)"
    for cs n
  proof -
    have m: "CharcodeToUnicode2 exampleCMap 0x43 = (replacementString, False)"
      by (simp add: exampleCMap_def)
    have s: "RuneToString exampleCollaborators 0x43 = ''C''"
      by (simp add: exampleCollaborators_def asciiRuneToString_def char_of_def bit_iff_odd)
    show ?thesis by (simp add: decodeCharcode_def t m e c s)
  qed
  have r3: "length (runes ''CXC'') = 3"
    by (simp add: byteval_def)
  have mixed: "CharcodeBytesToUnicode exampleCollaborators mappedFont [0x43, 0x42, 0x43]
       = Inr (''CXC'', 3, 0)"
    using explicit_mapping_takes_priority[OF t, where data = "[0x43, 0x42, 0x43]"
        and pre = "[0x43]" and code = "0x42" and post = "[0x43]" and r = "''X''"
        and E = exampleCollaborators] split h(1)
    by (simp add: miss joinResult_def Let_def r3 del: runes.simps)
  from t e c whole mixed show ?thesis by simp
qed

text \<open>
  C10. When the font's \<^verbatim>\<open>Encoder()\<close> is nil, a code that the explicit mapping table
  misses, or any code when there is no table, leaves the list of strings and the miss
  counter as they were: nothing is appended and no miss is counted.
\<close>

theorem nil_encoder_drops_code:
  assumes "Encoder font = None"
    and "toUnicodeCmap (skeleton font) = None
         \<or> (\<exists>cm r. toUnicodeCmap (skeleton font) = Some cm
               \<and> CharcodeToUnicode2 cm (ucast code) = (r, False))"
  shows "decodeCharcode E font code (charstrings, numMisses) = (charstrings, numMisses)"
  using assms by (auto simp: decodeCharcode_def)

theorem nil_encoder_drops_code_witness:
  "Encoder cidFont = None
   \<and> toUnicodeCmap (skeleton cidFont) = Some exampleCMap
   \<and> CharcodeToUnicode2 exampleCMap (ucast (0x43 :: uint16)) = (replacementString, False)
   \<and> decodeCharcode exampleCollaborators cidFont 0x43 ([''ffi''], 0) = ([''ffi''], 0)
   \<and> CharcodeBytesToUnicode exampleCollaborators cidFont [0x00, 0x43] = Inr ('''', 0, 0)
   \<and> CharcodeBytesToUnicode exampleCollaborators bareFont [0x41, 0x42] = Inr ('''', 0, 0)"
proof -
  have e: "Encoder cidFont = None"
    by (simp add: cidFont_def Encoder_def)
  have t: "toUnicodeCmap (skeleton cidFont) = Some exampleCMap"
    by (simp add: cidFont_def exampleSkeleton_def)
  have h: "CharcodeToUnicode2 exampleCMap (ucast (0x43 :: uint16)) = (replacementString, False)"
    by (simp add: exampleCMap_def)
  have a: "toUnicodeCmap (skeleton cidFont) = None
         \<or> (\<exists>cm r. toUnicodeCmap (skeleton cidFont) = Some cm
               \<and> CharcodeToUnicode2 cm (ucast (0x43 :: uint16)) = (r, False))"
    using t h by blast
  have step: "decodeCharcode exampleCollaborators cidFont 0x43 st = st" for st
    using nil_encoder_drops_code[OF e a, of exampleCollaborators "fst st" "snd st"] by simp
  have cid: "isCIDFont (skeleton cidFont)"
    by (simp add: cidFont_def exampleSkeleton_def isCIDFont_def)
  have codes: "specCharcodes cidFont [0x00, 0x43] = [0x43]"
    using cid by (simp add: specCharcodes_def cidPadded_def)
  have run: "CharcodeBytesToUnicode exampleCollaborators cidFont [0x00, 0x43] = Inr ('''', 0, 0)"
    by (simp add: CharcodeBytesToUnicode_def splitCharcodes_spec codes step joinResult_def)
  have be: "Encoder bareFont = None"
    by (simp add: bareFont_def Encoder_def)
  have bt: "toUnicodeCmap (skeleton bareFont) = None"
    by (simp add: bareFont_def exampleSkeleton_def)
  have bstep: "decodeCharcode exampleCollaborators bareFont code st = st" for code st
    using nil_encoder_drops_code[OF be disjI1[OF bt], of exampleCollaborators code "fst st" "snd st"]
    by simp
  have bcodes: "specCharcodes bareFont [0x41, 0x42] = [0x41, 0x42]"
    by (simp add: specCharcodes_def bareFont_def exampleSkeleton_def isCIDFont_def
        singleByteCodes_def)
  have brun: "CharcodeBytesToUnicode exampleCollaborators bareFont [0x41, 0x42]
      = Inr ('''', 0, 0)"
    by (simp add: CharcodeBytesToUnicode_def splitCharcodes_spec bcodes bstep joinResult_def)
  from e t h step[of "([''ffi''], 0)"] run brun show ?thesis by simp
qed

section \<open>Properties of the construction of fonts\<close>

lemma Get_absent: "map_of d key = None \<Longrightarrow> Get d key = nil"
  by (simp add: Get_def)

text \<open>
  C5, as amended. The header parser fails with \<^verbatim>\<open>ErrFontNotSupported\<close> when the input
  does not resolve to a dictionary; otherwise with \<^verbatim>\<open>ErrRequiredAttributeMissing\<close> when
  \<^verbatim>\<open>Type\<close> is not a name (an absent entry is none); otherwise with \<^verbatim>\<open>core.ErrTypeError\<close>
  when \<^verbatim>\<open>Type\<close> is a name other than Font; otherwise with
  \<^verbatim>\<open>ErrRequiredAttributeMissing\<close> when \<^verbatim>\<open>Subtype\<close> is not a name; otherwise with
  \<^verbatim>\<open>ErrFontNotSupported\<close> when \<^verbatim>\<open>Subtype\<close> is Type3; otherwise with
  \<^verbatim>\<open>ErrRequiredAttributeMissing\<close> when \<^verbatim>\<open>BaseFont\<close> is not a name.
\<close>

theorem newFontSkeletonFromPdfObject_errors:
  "((\<forall>d. TraceToDirectObject fontObj \<noteq> PdfObjectDictionary d) \<longrightarrow>
      newFontSkeletonFromPdfObject E fontObj = Inl ErrFontNotSupported)
   \<and> (TraceToDirectObject fontObj = PdfObjectDictionary d \<longrightarrow>
       (\<forall>key. map_of d key = None \<longrightarrow> GetName (TraceToDirectObject (Get d key)) = None)
     \<and> (GetName (TraceToDirectObject (Get d ''Type'')) = None \<longrightarrow>
          newFontSkeletonFromPdfObject E fontObj = Inl ErrRequiredAttributeMissing)
     \<and> (\<forall>t. GetName (TraceToDirectObject (Get d ''Type'')) = Some t \<and> t \<noteq> ''Font'' \<longrightarrow>
          newFontSkeletonFromPdfObject E fontObj = Inl ErrTypeError)
     \<and> (GetName (TraceToDirectObject (Get d ''Type'')) = Some ''Font'' \<longrightarrow>
          (GetName (TraceToDirectObject (Get d ''Subtype'')) = None \<longrightarrow>
             newFontSkeletonFromPdfObject E fontObj = Inl ErrRequiredAttributeMissing)
        \<and> (GetName (TraceToDirectObject (Get d ''Subtype'')) = Some ''Type3'' \<longrightarrow>
             newFontSkeletonFromPdfObject E fontObj = Inl ErrFontNotSupported)
        \<and> (\<forall>st. GetName (TraceToDirectObject (Get d ''Subtype'')) = Some st
                \<and> st \<noteq> ''Type3''
                \<and> GetName (TraceToDirectObject (Get d ''BaseFont'')) = None \<longrightarrow>
             newFontSkeletonFromPdfObject E fontObj = Inl ErrRequiredAttributeMissing)))"
proof (intro conjI impI allI)
  assume "\<forall>d. TraceToDirectObject fontObj \<noteq> PdfObjectDictionary d"
  then show "newFontSkeletonFromPdfObject E fontObj = Inl ErrFontNotSupported"
    by (cases "TraceToDirectObject fontObj") (simp_all add: newFontSkeletonFromPdfObject_def)
next
  fix key
  assume "map_of d key = None"
  then show "GetName (TraceToDirectObject (Get d key)) = None"
    by (simp add: Get_absent)
next
  assume "TraceToDirectObject fontObj = PdfObjectDictionary d"
    and "GetName (TraceToDirectObject (Get d ''Type'')) = None"
  then show "newFontSkeletonFromPdfObject E fontObj = Inl ErrRequiredAttributeMissing"
    by (simp add: newFontSkeletonFromPdfObject_def)
next
  fix t
  assume "TraceToDirectObject fontObj = PdfObjectDictionary d"
    and "GetName (TraceToDirectObject (Get d ''Type'')) = Some t \<and> t \<noteq> ''Font''"
  then show "newFontSkeletonFromPdfObject E fontObj = Inl ErrTypeError"
    by (simp add: newFontSkeletonFromPdfObject_def)
next
  assume "TraceToDirectObject fontObj = PdfObjectDictionary d"
    and "GetName (TraceToDirectObject (Get d ''Type'')) = Some ''Font''"
    and "GetName (TraceToDirectObject (Get d ''Subtype'')) = None"
  then show "newFontSkeletonFromPdfObject E fontObj = Inl ErrRequiredAttributeMissing"
    by (simp add: newFontSkeletonFromPdfObject_def)
next
  assume "TraceToDirectObject fontObj = PdfObjectDictionary d"
    and "GetName (TraceToDirectObject (Get d ''Type'')) = Some ''Font''"
    and "GetName (TraceToDirectObject (Get d ''Subtype'')) = Some ''Type3''"
  then show "newFontSkeletonFromPdfObject E fontObj = Inl ErrFontNotSupported"
    by (simp add: newFontSkeletonFromPdfObject_def)
next
  fix st
  assume "TraceToDirectObject fontObj = PdfObjectDictionary d"
    and "GetName (TraceToDirectObject (Get d ''Type'')) = Some ''Font''"
    and "GetName (TraceToDirectObject (Get d ''Subtype'')) = Some st \<and> st \<noteq> ''Type3''
         \<and> GetName (TraceToDirectObject (Get d ''BaseFont'')) = None"
  then show "newFontSkeletonFromPdfObject E fontObj = Inl ErrRequiredAttributeMissing"
    by (simp add: newFontSkeletonFromPdfObject_def)
qed

theorem newFontSkeletonFromPdfObject_errors_witness:
  "newFontSkeletonFromPdfObject exampleCollaborators (PdfObjectInteger 7)
     = Inl ErrFontNotSupported
   \<and> newFontSkeletonFromPdfObject exampleCollaborators
       (PdfIndirectObject 4 (PdfObjectDictionary noTypeDict)) = Inl ErrRequiredAttributeMissing
   \<and> newFontSkeletonFromPdfObject exampleCollaborators (PdfObjectDictionary wrongTypeDict)
     = Inl ErrTypeError
   \<and> newFontSkeletonFromPdfObject exampleCollaborators (PdfObjectDictionary noSubtypeDict)
     = Inl ErrRequiredAttributeMissing
   \<and> newFontSkeletonFromPdfObject exampleCollaborators (PdfObjectDictionary type3Dict)
     = Inl ErrFontNotSupported
   \<and> newFontSkeletonFromPdfObject exampleCollaborators (PdfObjectDictionary noBaseFontDict)
     = Inl ErrRequiredAttributeMissing"
proof -
  note t = newFontSkeletonFromPdfObject_errors[where E = exampleCollaborators]
  have 1: "newFontSkeletonFromPdfObject exampleCollaborators (PdfObjectInteger 7)
     = Inl ErrFontNotSupported"
    using t[of "PdfObjectInteger 7"] by simp
  have 2: "newFontSkeletonFromPdfObject exampleCollaborators
       (PdfIndirectObject 4 (PdfObjectDictionary noTypeDict)) = Inl ErrRequiredAttributeMissing"
    using t[of "PdfIndirectObject 4 (PdfObjectDictionary noTypeDict)" noTypeDict]
    by (simp add: noTypeDict_def Get_def)
  have 3: "newFontSkeletonFromPdfObject exampleCollaborators (PdfObjectDictionary wrongTypeDict)
     = Inl ErrTypeError"
    using t[of "PdfObjectDictionary wrongTypeDict" wrongTypeDict]
    by (simp add: wrongTypeDict_def Get_def)
  have 4: "newFontSkeletonFromPdfObject exampleCollaborators (PdfObjectDictionary noSubtypeDict)
     = Inl ErrRequiredAttributeMissing"
    using t[of "PdfObjectDictionary noSubtypeDict" noSubtypeDict]
    by (simp add: noSubtypeDict_def Get_def)
  have 5: "newFontSkeletonFromPdfObject exampleCollaborators (PdfObjectDictionary type3Dict)
     = Inl ErrFontNotSupported"
    using t[of "PdfObjectDictionary type3Dict" type3Dict]
    by (simp add: type3Dict_def Get_def)
  have 6: "newFontSkeletonFromPdfObject exampleCollaborators (PdfObjectDictionary noBaseFontDict)
     = Inl ErrRequiredAttributeMissing"
    using t[of "PdfObjectDictionary noBaseFontDict" noBaseFontDict]
    by (simp add: noBaseFontDict_def Get_def)
  from 1 2 3 4 5 6 show ?thesis by simp
qed

text \<open>
  C5 as stated fails: a \<^verbatim>\<open>Type\<close> that is present but not Font and a \<^verbatim>\<open>Type\<close> that is
  absent do not fail with one error, and an input that is no dictionary fails with
  the very error of the subtype Type3.
\<close>

theorem newFontSkeletonFromPdfObject_counterexample:
  "newFontSkeletonFromPdfObject exampleCollaborators (PdfObjectDictionary wrongTypeDict)
     = Inl ErrTypeError
   \<and> newFontSkeletonFromPdfObject exampleCollaborators (PdfObjectDictionary noTypeDict)
     = Inl ErrRequiredAttributeMissing
   \<and> ErrTypeError \<noteq> ErrRequiredAttributeMissing
   \<and> newFontSkeletonFromPdfObject exampleCollaborators (PdfObjectString ''font'')
     = Inl ErrFontNotSupported
   \<and> newFontSkeletonFromPdfObject exampleCollaborators (PdfObjectDictionary type3Dict)
     = Inl ErrFontNotSupported"
  by (simp add: newFontSkeletonFromPdfObject_def wrongTypeDict_def noTypeDict_def
      type3Dict_def Get_def)

text \<open>
  C6. When font resolution runs with the construction of a nested composite font
  disallowed (\<^verbatim>\<open>allowType0\<close> false), a header whose subtype is Type0 is rejected with
  the error "Cyclical type0 loading", whatever the Type0 constructor would do: the
  constructor is not reached.
\<close>

theorem nested_Type0_rejected:
  assumes "newFontSkeletonFromPdfObject E fontObj = Inr skel"
    and "subtype skel = ''Type0''"
  shows "newPdfFontFromPdfObject E fontObj False = Inl (ErrorsNew ''Cyclical type0 loading'')"
  using assms by (simp add: newPdfFontFromPdfObject_def)

lemma innerType0_header:
  "newFontSkeletonFromPdfObject exampleCollaborators (PdfObjectDictionary innerType0Dict)
     = Inr \<lparr> basefont = ''Inner'', subtype = ''Type0'', toUnicode = nil, toUnicodeCmap = None,
             fontDescriptor = None, dict = Some innerType0Dict, objectNumber = 0 \<rparr>"
  by (simp add: newFontSkeletonFromPdfObject_def innerType0Dict_def Get_def)

lemma nestedComposite_header:
  "newFontSkeletonFromPdfObject type0Collaborators (PdfObjectDictionary nestedCompositeDict)
     = Inr \<lparr> basefont = ''Outer'', subtype = ''Type0'', toUnicode = nil, toUnicodeCmap = None,
             fontDescriptor = None, dict = Some nestedCompositeDict, objectNumber = 0 \<rparr>"
  by (simp add: newFontSkeletonFromPdfObject_def nestedCompositeDict_def Get_def)

theorem nested_Type0_rejected_witness:
  "newPdfFontFromPdfObject exampleCollaborators (PdfObjectDictionary innerType0Dict) False
     = Inl (ErrorsNew ''Cyclical type0 loading'')
   \<and> NewPdfFontFromPdfObject type0Collaborators (PdfObjectDictionary nestedCompositeDict)
     = Inl (ErrorsNew ''Cyclical type0 loading'')"
proof -
  have inner: "newPdfFontFromPdfObject exampleCollaborators
      (PdfObjectDictionary innerType0Dict) False = Inl (ErrorsNew ''Cyclical type0 loading'')"
    using nested_Type0_rejected[OF innerType0_header] by simp
  have d: "TraceToDirectObject (Get nestedCompositeDict ''DescendantFonts'')
      = PdfObjectArray [PdfObjectDictionary innerType0Dict]"
    by (simp add: nestedCompositeDict_def Get_def)
  have ctor: "newPdfFontType0FromPdfObject type0Collaborators
      \<lparr> basefont = ''Outer'', subtype = ''Type0'', toUnicode = nil, toUnicodeCmap = None,
        fontDescriptor = None, dict = Some nestedCompositeDict, objectNumber = 0 \<rparr>
      = Inl (ErrorsNew ''Cyclical type0 loading'')"
    by (simp add: type0Collaborators_def d inner)
  have "NewPdfFontFromPdfObject type0Collaborators (PdfObjectDictionary nestedCompositeDict)
      = Inl (ErrorsNew ''Cyclical type0 loading'')"
    by (simp add: NewPdfFontFromPdfObject_def newPdfFontFromPdfObject_def
        nestedComposite_header ctor)
  with inner show ?thesis by simp
qed

text \<open>
  C7. \<^verbatim>\<open>NewStandard14Font\<close> succeeds exactly for the names of the table of standard
  fonts; the font it returns has the subtype label Type1 and the given base font name;
  for every other name it fails with \<^verbatim>\<open>ErrFontNotSupported\<close>.
\<close>

theorem NewStandard14Font_spec:
  "((\<exists>font. NewStandard14Font E name = Inr font) \<longleftrightarrow> name \<in> dom (Standard14Fonts E))
   \<and> (\<forall>font. NewStandard14Font E name = Inr font \<longrightarrow>
         Subtype font = ''Type1'' \<and> BaseFont font = name)
   \<and> (name \<notin> dom (Standard14Fonts E) \<longrightarrow> NewStandard14Font E name = Inl ErrFontNotSupported)"
  by (auto simp: NewStandard14Font_def BaseFont_def split: option.splits)

lemma standard14Table_names:
  "map fst standard14Table =
     [''Courier'', ''Courier-Bold'', ''Courier-BoldOblique'', ''Courier-Oblique'',
      ''Helvetica'', ''Helvetica-Bold'', ''Helvetica-BoldOblique'', ''Helvetica-Oblique'',
      ''Times-Roman'', ''Times-Bold'', ''Times-BoldItalic'', ''Times-Italic'',
      ''Symbol'', ''ZapfDingbats'']"
  by (simp add: standard14Table_def)

lemma standard14Table_distinct:
  "length standard14Table = 14 \<and> distinct (map fst standard14Table)"
  by (simp add: standard14Table_names) (simp add: standard14Table_def)

theorem NewStandard14Font_spec_witness:
  "(\<exists>font. NewStandard14Font exampleCollaborators ''Helvetica-Bold'' = Inr font
      \<and> Subtype font = ''Type1'' \<and> BaseFont font = ''Helvetica-Bold'')
   \<and> NewStandard14Font exampleCollaborators ''NotARealFont'' = Inl ErrFontNotSupported"
proof -
  have tbl: "Standard14Fonts exampleCollaborators = map_of standard14Table"
    by (simp add: exampleCollaborators_def)
  have h: "''Helvetica-Bold'' \<in> dom (Standard14Fonts exampleCollaborators)"
    unfolding tbl dom_map_of_conv_image_fst
    by (simp add: standard14Table_names flip: set_map)
  have n: "''NotARealFont'' \<notin> dom (Standard14Fonts exampleCollaborators)"
    unfolding tbl dom_map_of_conv_image_fst
    by (simp add: standard14Table_names flip: set_map)
  from NewStandard14Font_spec[of exampleCollaborators "''Helvetica-Bold''"] h
  obtain font where f: "NewStandard14Font exampleCollaborators ''Helvetica-Bold'' = Inr font"
    and "Subtype font = ''Type1''" "BaseFont font = ''Helvetica-Bold''"
    by blast
  moreover from NewStandard14Font_spec[of exampleCollaborators "''NotARealFont''"] n
  have "NewStandard14Font exampleCollaborators ''NotARealFont'' = Inl ErrFontNotSupported"
    by blast
  ultimately show ?thesis by blast
qed

text \<open>
  C9. The subtype label of a composite font is its declared subtype, a colon and the
  subtype label of its descendant font; the label of every other font is its declared
  subtype alone.
\<close>

theorem Subtype_label:
  "Subtype (PdfFont skel (FontType0 t)) = subtype skel @ '':'' @ Subtype (DescendantFont t)
   \<and> ((\<forall>t. variant \<noteq> FontType0 t) \<longrightarrow> Subtype (PdfFont skel variant) = subtype skel)"
proof
  show "Subtype (PdfFont skel (FontType0 t)) = subtype skel @ '':'' @ Subtype (DescendantFont t)"
    by (cases t) simp
  show "(\<forall>t. variant \<noteq> FontType0 t) \<longrightarrow> Subtype (PdfFont skel variant) = subtype skel"
    by (cases variant) simp_all
qed

lemma cidFontDict_header:
  "newFontSkeletonFromPdfObject exampleCollaborators (PdfObjectDictionary cidFontDict)
     = Inr \<lparr> basefont = ''Inner'', subtype = ''CIDFontType2'', toUnicode = nil,
             toUnicodeCmap = None, fontDescriptor = None, dict = Some cidFontDict,
             objectNumber = 0 \<rparr>"
  by (simp add: newFontSkeletonFromPdfObject_def cidFontDict_def Get_def)

lemma composite_header:
  "newFontSkeletonFromPdfObject type0Collaborators (PdfObjectDictionary compositeDict)
     = Inr \<lparr> basefont = ''Outer'', subtype = ''Type0'', toUnicode = nil, toUnicodeCmap = None,
             fontDescriptor = None, dict = Some compositeDict, objectNumber = 0 \<rparr>"
  by (simp add: newFontSkeletonFromPdfObject_def compositeDict_def Get_def)

theorem Subtype_label_witness:
  "(\<exists>font. NewPdfFontFromPdfObject type0Collaborators (PdfObjectDictionary compositeDict)
        = Inr font \<and> Subtype font = ''Type0:CIDFontType2'')
   \<and> Subtype simpleFont = ''TrueType''"
proof -
  have d: "TraceToDirectObject (Get compositeDict ''DescendantFonts'')
      = PdfObjectArray [PdfObjectDictionary cidFontDict]"
    by (simp add: compositeDict_def Get_def)
  let ?inner = "PdfFont \<lparr> basefont = ''Inner'', subtype = ''CIDFontType2'', toUnicode = nil,
      toUnicodeCmap = None, fontDescriptor = None, dict = Some cidFontDict,
      objectNumber = 0 \<rparr> (FontCIDType2 (PdfCIDFontType2 None))"
  let ?outer = "PdfFont \<lparr> basefont = ''Outer'', subtype = ''Type0'', toUnicode = nil,
      toUnicodeCmap = None, fontDescriptor = None, dict = Some compositeDict,
      objectNumber = 0 \<rparr> (FontType0 (PdfFontType0 ?inner None))"
  have inner: "newPdfFontFromPdfObject exampleCollaborators
      (PdfObjectDictionary cidFontDict) False = Inr ?inner"
    by (simp add: newPdfFontFromPdfObject_def cidFontDict_header)
      (simp add: exampleCollaborators_def)
  have ctor: "newPdfFontType0FromPdfObject type0Collaborators
      \<lparr> basefont = ''Outer'', subtype = ''Type0'', toUnicode = nil, toUnicodeCmap = None,
        fontDescriptor = None, dict = Some compositeDict, objectNumber = 0 \<rparr>
      = Inr (PdfFontType0 ?inner None)"
    by (simp add: type0Collaborators_def d inner)
  have outer: "NewPdfFontFromPdfObject type0Collaborators (PdfObjectDictionary compositeDict)
      = Inr ?outer"
    by (simp add: NewPdfFontFromPdfObject_def newPdfFontFromPdfObject_def
        composite_header ctor)
  have "Subtype ?outer = ''Type0:CIDFontType2''"
    using Subtype_label[of _ "PdfFontType0 ?inner None" FontNil]
      Subtype_label[of "skeleton ?inner" _ "FontCIDType2 (PdfCIDFontType2 None)"]
    by simp
  moreover have "Subtype simpleFont = ''TrueType''"
    using Subtype_label[of "skeleton simpleFont" _ "fontContext simpleFont"]
    by (simp add: simpleFont_def exampleSkeleton_def)
  ultimately show ?thesis using outer by simp
qed

section \<open>The font descriptor round trip\<close>

lemma Get_Set_dict: "Get (Set_dict d k v) k' = (if k' = k then v else Get d k')"
  by (simp add: Get_def Set_dict_def update_conv')

lemma Get_setWhen:
  "Get (setWhen g k v d) k' = (if g \<noteq> nil \<and> k' = k then v else Get d k')"
  by (simp add: setWhen_def Get_Set_dict)

lemma Get_MakeDict: "Get MakeDict k = nil"
  by (simp add: Get_def MakeDict_def)

text \<open>
  The passthrough entries other than \<^verbatim>\<open>Style\<close> are written back under their own keys
  with the values the descriptor holds.
\<close>

lemma descriptorDict_fields:
  "Get (descriptorDict this) ''FontName'' = FontName this"
  "Get (descriptorDict this) ''FontFamily'' = FontFamily this"
  "Get (descriptorDict this) ''FontStretch'' = FontStretch this"
  "Get (descriptorDict this) ''FontWeight'' = FontWeight this"
  "Get (descriptorDict this) ''Flags'' = Flags this"
  "Get (descriptorDict this) ''FontBBox'' = FontBBox this"
  "Get (descriptorDict this) ''ItalicAngle'' = ItalicAngle this"
  "Get (descriptorDict this) ''Ascent'' = Ascent this"
  "Get (descriptorDict this) ''Descent'' = Descent this"
  "Get (descriptorDict this) ''Leading'' = Leading this"
  "Get (descriptorDict this) ''CapHeight'' = CapHeight this"
  "Get (descriptorDict this) ''XHeight'' = XHeight this"
  "Get (descriptorDict this) ''StemV'' = StemV this"
  "Get (descriptorDict this) ''StemH'' = StemH this"
  "Get (descriptorDict this) ''AvgWidth'' = AvgWidth this"
  "Get (descriptorDict this) ''MaxWidth'' = MaxWidth this"
  "Get (descriptorDict this) ''MissingWidth'' = MissingWidth this"
  "Get (descriptorDict this) ''FontFile'' = FontFile this"
  "Get (descriptorDict this) ''FontFile2'' = FontFile2 this"
  "Get (descriptorDict this) ''FontFile3'' = FontFile3 this"
  "Get (descriptorDict this) ''CharSet'' = CharSet this"
  "Get (descriptorDict this) ''Lang'' = Lang this"
  "Get (descriptorDict this) ''FD'' = FD this"
  "Get (descriptorDict this) ''CIDSet'' = CIDSet this"
  by (simp_all add: descriptorDict_def Get_setWhen Get_Set_dict Get_MakeDict)

text \<open>No descriptor is written back with an entry \<^verbatim>\<open>Style\<close>.\<close>

lemma descriptorDict_no_Style: "Get (descriptorDict this) ''Style'' = nil"
  by (simp add: descriptorDict_def Get_setWhen Get_Set_dict Get_MakeDict)

text \<open>The parser copies every passthrough entry of the dictionary into the descriptor.\<close>

lemma parsed_descriptor_fields:
  assumes "newPdfFontDescriptorFromPdfObject E (PdfObjectDictionary d) = (Some descriptor, err)"
  shows
    "FontName descriptor = Get d ''FontName''"
    "FontFamily descriptor = Get d ''FontFamily''"
    "FontStretch descriptor = Get d ''FontStretch''"
    "FontWeight descriptor = Get d ''FontWeight''"
    "Flags descriptor = Get d ''Flags''"
    "FontBBox descriptor = Get d ''FontBBox''"
    "ItalicAngle descriptor = Get d ''ItalicAngle''"
    "Ascent descriptor = Get d ''Ascent''"
    "Descent descriptor = Get d ''Descent''"
    "Leading descriptor = Get d ''Leading''"
    "CapHeight descriptor = Get d ''CapHeight''"
    "XHeight descriptor = Get d ''XHeight''"
    "StemV descriptor = Get d ''StemV''"
    "StemH descriptor = Get d ''StemH''"
    "AvgWidth descriptor = Get d ''AvgWidth''"
    "MaxWidth descriptor = Get d ''MaxWidth''"
    "MissingWidth descriptor = Get d ''MissingWidth''"
    "FontFile descriptor = Get d ''FontFile''"
    "FontFile2 descriptor = Get d ''FontFile2''"
    "FontFile3 descriptor = Get d ''FontFile3''"
    "CharSet descriptor = Get d ''CharSet''"
    "Style descriptor = Get d ''Style''"
    "Lang descriptor = Get d ''Lang''"
    "FD descriptor = Get d ''FD''"
    "CIDSet descriptor = Get d ''CIDSet''"
proof -
  from assms obtain ff ff2 where
    "descriptor =
        \<lparr> FontName = Get d ''FontName'',
           FontFamily = Get d ''FontFamily'',
           FontStretch = Get d ''FontStretch'',
           FontWeight = Get d ''FontWeight'',
           Flags = Get d ''Flags'',
           FontBBox = Get d ''FontBBox'',
           ItalicAngle = Get d ''ItalicAngle'',
           Ascent = Get d ''Ascent'',
           Descent = Get d ''Descent'',
           Leading = Get d ''Leading'',
           CapHeight = Get d ''CapHeight'',
           XHeight = Get d ''XHeight'',
           StemV = Get d ''StemV'',
           StemH = Get d ''StemH'',
           AvgWidth = Get d ''AvgWidth'',
           MaxWidth = Get d ''MaxWidth'',
           MissingWidth = Get d ''MissingWidth'',
           FontFile = Get d ''FontFile'',
           FontFile2 = Get d ''FontFile2'',
           FontFile3 = Get d ''FontFile3'',
           CharSet = Get d ''CharSet'',
           fontFile = ff, fontFile2 = ff2,
           Style = Get d ''Style'',
           Lang = Get d ''Lang'',
           FD = Get d ''FD'',
           CIDSet = Get d ''CIDSet'',
           container = nil \<rparr>"
    by (auto simp: newPdfFontDescriptorFromPdfObject_def Let_def split: if_splits sum.splits)
  then show
    "FontName descriptor = Get d ''FontName''"
    "FontFamily descriptor = Get d ''FontFamily''"
    "FontStretch descriptor = Get d ''FontStretch''"
    "FontWeight descriptor = Get d ''FontWeight''"
    "Flags descriptor = Get d ''Flags''"
    "FontBBox descriptor = Get d ''FontBBox''"
    "ItalicAngle descriptor = Get d ''ItalicAngle''"
    "Ascent descriptor = Get d ''Ascent''"
    "Descent descriptor = Get d ''Descent''"
    "Leading descriptor = Get d ''Leading''"
    "CapHeight descriptor = Get d ''CapHeight''"
    "XHeight descriptor = Get d ''XHeight''"
    "StemV descriptor = Get d ''StemV''"
    "StemH descriptor = Get d ''StemH''"
    "AvgWidth descriptor = Get d ''AvgWidth''"
    "MaxWidth descriptor = Get d ''MaxWidth''"
    "MissingWidth descriptor = Get d ''MissingWidth''"
    "FontFile descriptor = Get d ''FontFile''"
    "FontFile2 descriptor = Get d ''FontFile2''"
    "FontFile3 descriptor = Get d ''FontFile3''"
    "CharSet descriptor = Get d ''CharSet''"
    "Style descriptor = Get d ''Style''"
    "Lang descriptor = Get d ''Lang''"
    "FD descriptor = Get d ''FD''"
    "CIDSet descriptor = Get d ''CIDSet''"
    by simp_all
qed

text \<open>
  So every passthrough entry but \<^verbatim>\<open>Style\<close> comes back from parsing and writing back
  under its key with its value (an absent one stays absent).
\<close>

lemma descriptor_round_trip_but_Style:
  assumes "newPdfFontDescriptorFromPdfObject E (PdfObjectDictionary d) = (Some descriptor, err)"
  shows
    "Get (descriptorDict descriptor) ''FontName'' = Get d ''FontName''"
    "Get (descriptorDict descriptor) ''FontFamily'' = Get d ''FontFamily''"
    "Get (descriptorDict descriptor) ''FontStretch'' = Get d ''FontStretch''"
    "Get (descriptorDict descriptor) ''FontWeight'' = Get d ''FontWeight''"
    "Get (descriptorDict descriptor) ''Flags'' = Get d ''Flags''"
    "Get (descriptorDict descriptor) ''FontBBox'' = Get d ''FontBBox''"
    "Get (descriptorDict descriptor) ''ItalicAngle'' = Get d ''ItalicAngle''"
    "Get (descriptorDict descriptor) ''Ascent'' = Get d ''Ascent''"
    "Get (descriptorDict descriptor) ''Descent'' = Get d ''Descent''"
    "Get (descriptorDict descriptor) ''Leading'' = Get d ''Leading''"
    "Get (descriptorDict descriptor) ''CapHeight'' = Get d ''CapHeight''"
    "Get (descriptorDict descriptor) ''XHeight'' = Get d ''XHeight''"
    "Get (descriptorDict descriptor) ''StemV'' = Get d ''StemV''"
    "Get (descriptorDict descriptor) ''StemH'' = Get d ''StemH''"
    "Get (descriptorDict descriptor) ''AvgWidth'' = Get d ''AvgWidth''"
    "Get (descriptorDict descriptor) ''MaxWidth'' = Get d ''MaxWidth''"
    "Get (descriptorDict descriptor) ''MissingWidth'' = Get d ''MissingWidth''"
    "Get (descriptorDict descriptor) ''FontFile'' = Get d ''FontFile''"
    "Get (descriptorDict descriptor) ''FontFile2'' = Get d ''FontFile2''"
    "Get (descriptorDict descriptor) ''FontFile3'' = Get d ''FontFile3''"
    "Get (descriptorDict descriptor) ''CharSet'' = Get d ''CharSet''"
    "Get (descriptorDict descriptor) ''Lang'' = Get d ''Lang''"
    "Get (descriptorDict descriptor) ''FD'' = Get d ''FD''"
    "Get (descriptorDict descriptor) ''CIDSet'' = Get d ''CIDSet''"
  by (simp_all add: descriptorDict_fields parsed_descriptor_fields[OF assms])

text \<open>
  C8, at a descriptor dictionary that holds \<^verbatim>\<open>Style\<close>, \<^verbatim>\<open>Lang\<close>, \<^verbatim>\<open>FD\<close> and
  \<^verbatim>\<open>CIDSet\<close>: the parser keeps all four, and the dictionary written back holds
  \<^verbatim>\<open>Lang\<close>, \<^verbatim>\<open>FD\<close> and \<^verbatim>\<open>CIDSet\<close> but no \<^verbatim>\<open>Style\<close>: line 719 sets \<^verbatim>\<open>FontName\<close> where the
  statements around it set their own key.
\<close>

theorem descriptor_Style_not_written_back:
  "(\<exists>descriptor.
      newPdfFontDescriptorFromPdfObject exampleCollaborators
        (PdfObjectDictionary cidDescriptorDict) = (Some descriptor, None)
      \<and> Style descriptor = PdfObjectDictionary [(''Panose'', PdfObjectString ''panose'')]
      \<and> snd (descriptorToPdfObject descriptor) =
          PdfIndirectObject 0 (PdfObjectDictionary
            [(''Type'', PdfObjectName ''FontDescriptor''),
             (''FontName'', PdfObjectName ''Example''),
             (''Flags'', PdfObjectInteger 32),
             (''Lang'', PdfObjectName ''en''),
             (''FD'', PdfObjectDictionary []),
             (''CIDSet'', PdfObjectStream 9 [] [0x80])]))
   \<and> Get cidDescriptorDict ''Style''
       = PdfObjectDictionary [(''Panose'', PdfObjectString ''panose'')]"
  by (simp add: newPdfFontDescriptorFromPdfObject_def cidDescriptorDict_def Get_def
      descriptorToPdfObject_def descriptorDict_def setWhen_def Set_dict_def MakeDict_def
      Let_def)

end
